theory Spec2Isabelle
  imports Complex_Main "HOL-Library.Char_ord" "HOL-Library.List_Lexorder"
begin

section \<open>Data model (src/types/index.ts)\<close>

text \<open>
  A TypeScript \<^verbatim>\<open>number\<close> that the code only ever uses as a counter, a line number, a
  limit or a graph distance is an \<^typ>\<open>int\<close>; scores, weights and embedding components
  are \<^typ>\<open>real\<close> (IEEE rounding, NaN and the infinities are not part of the model).
  A \<^verbatim>\<open>Date\<close> is its millisecond count.  Field names that several interfaces share
  (\<^verbatim>\<open>from\<close>, \<^verbatim>\<open>to\<close>, \<^verbatim>\<open>type\<close>, \<^verbatim>\<open>filePath\<close>, \<^verbatim>\<open>lineNumber\<close>, \<^verbatim>\<open>imports\<close>, \<^verbatim>\<open>exports\<close>)
  carry a prefix naming their interface; a parameter or local whose name is also a field
  name is renamed (\<^verbatim>\<open>biasScore\<close> to \<open>bias\<close>, \<^verbatim>\<open>content\<close> to \<open>text\<close>, ...).
\<close>

record textualFeatures =
  docstrings :: "string list"
  comments :: "string list"
  identifierNames :: "string list"
  variableNames :: "string list"

record structuralFeatures =
  astNodes :: int
  complexity :: int
  nestingDepth :: int
  functionCount :: int
  classCount :: int

record semanticFeatures =
  embedding :: "real list"
  functionalSignature :: string
  behaviorPattern :: string

datatype importType = default_import | named_import | namespace_import | dynamic_import

record ImportRelation =
  import_from :: string
  import_to :: string
  symbols :: "string list"
  importType :: importType
  import_lineNumber :: "nat option"
  import_statement :: string

datatype exportType = default_export | named_export | namespace_export

record ExportRelation =
  export_from :: string
  export_symbol :: string
  exportType :: exportType
  export_lineNumber :: "nat option"
  export_statement :: string

datatype callType = direct_call | method_call | constructor_call | async_call

record CallRelation =
  call_from :: string
  call_to :: string
  call_object :: "string option"
  call_lineNumber :: "nat option"
  callType :: callType
  call_context :: string

datatype inheritanceType = extends_type | implements_type | mixin_type

record InheritanceRelation =
  inherit_from :: string
  inherit_to :: string
  inherit_type :: inheritanceType
  inherit_lineNumber :: "nat option"
  interfaceName :: "string option"

datatype dependencyType = npm_dep | local_dep | builtin_dep

record DependencyRelation =
  dep_from :: string
  dep_to :: string
  dependencyType :: dependencyType
  dep_version :: "string option"
  usage :: "string list"

datatype compositionKind = has_a | uses_kind | aggregates_kind

record CompositionRelation =
  comp_from :: string
  comp_to :: string
  comp_relationship :: compositionKind
  comp_lineNumber :: "nat option"
  fieldName :: "string option"

record CodeRelationships =
  rel_filePath :: string
  rel_imports :: "ImportRelation list"
  rel_exports :: "ExportRelation list"
  functionCalls :: "CallRelation list"
  classInheritance :: "InheritanceRelation list"
  dependencies :: "DependencyRelation list"
  compositions :: "CompositionRelation list"
  lastAnalyzed :: nat

record CodeRepresentation =
  filePath :: string
  content :: string
  textualFeatures :: textualFeatures
  structuralFeatures :: structuralFeatures
  semanticFeatures :: semanticFeatures
  relationships :: "CodeRelationships option"
  biasScore :: real
  augmentedEmbedding :: "real list"
  lastModified :: nat

datatype RelationshipType =
    imports_t | exports_t | calls_t | extends_t | implements_t | uses_t | depends_on_t
  | composes_t | aggregates_t | provides_service_t | consumes_service_t

datatype componentType = file_c | class_c | function_c | interface_c | module_c

record RelatedComponent =
  rc_filePath :: string
  componentName :: string
  componentType :: componentType
  relationshipType :: RelationshipType
  relationshipDescription :: string
  relevanceScore :: real
  distance :: int
  snippet :: "string option"

record nodeMetadata =
  meta_biasScore :: "real option"
  meta_complexity :: "int option"
  meta_size :: "int option"

record GraphNode =
  node_id :: string
  node_label :: string
  node_type :: componentType
  node_metadata :: nodeMetadata

record GraphEdge =
  edge_from :: string
  edge_to :: string
  edge_type :: RelationshipType
  edge_weight :: real
  edge_label :: string
  edge_bidirectional :: "bool option"

record RelationshipGraph =
  nodes :: "GraphNode list"
  edges :: "GraphEdge list"
  primaryNode :: string
  graph_maxDepth :: int

record RelationshipWeights =
  w_imports :: real
  w_exports :: real
  w_calls :: real
  w_extends :: real
  w_implements :: real
  w_uses :: real
  w_depends_on :: real

definition DEFAULT_RELATIONSHIP_WEIGHTS :: RelationshipWeights where
  "DEFAULT_RELATIONSHIP_WEIGHTS =
     \<lparr>w_imports = 1.0, w_exports = 0.8, w_calls = 0.9, w_extends = 0.95,
      w_implements = 0.9, w_uses = 0.7, w_depends_on = 0.6\<rparr>"

text \<open>Indexing a weights object by a relationship type: four of the types have no entry.\<close>

fun weightOf :: "RelationshipWeights \<Rightarrow> RelationshipType \<Rightarrow> real option" where
  "weightOf w imports_t = Some (w_imports w)"
| "weightOf w exports_t = Some (w_exports w)"
| "weightOf w calls_t = Some (w_calls w)"
| "weightOf w extends_t = Some (w_extends w)"
| "weightOf w implements_t = Some (w_implements w)"
| "weightOf w uses_t = Some (w_uses w)"
| "weightOf w depends_on_t = Some (w_depends_on w)"
| "weightOf w _ = None"

record RelationshipTraversalConfig =
  maxDepth :: int
  relationshipTypes :: "RelationshipType list"
  minRelevanceScore :: real
  includeReverse :: bool
  weightings :: RelationshipWeights

text \<open>\<^verbatim>\<open>Partial<RelationshipTraversalConfig>\<close>: every key may be absent.\<close>

record PartialTraversalConfig =
  p_maxDepth :: "int option"
  p_relationshipTypes :: "RelationshipType list option"
  p_minRelevanceScore :: "real option"
  p_includeReverse :: "bool option"
  p_weightings :: "RelationshipWeights option"

definition noConfig :: PartialTraversalConfig where
  "noConfig = \<lparr>p_maxDepth = None, p_relationshipTypes = None, p_minRelevanceScore = None,
               p_includeReverse = None, p_weightings = None\<rparr>"

record traversalStats =
  nodesVisited :: nat
  edgesTraversed :: nat

record GraphTraversalResult =
  startNode :: string
  relatedComponents :: "RelatedComponent list"
  relationshipGraph :: RelationshipGraph
  traversalStats :: traversalStats

record SACLConfig =
  repositoryPath :: string
  namespace :: string
  llmModel :: string
  embeddingModel :: string
  biasThreshold :: real
  maxResults :: real
  cacheEnabled :: bool

section \<open>JavaScript strings\<close>

text \<open>
  Strings are lists of 8-bit characters; the functions below are the \<^verbatim>\<open>String.prototype\<close>
  methods the code calls, on ASCII text.
\<close>

definition startsWith :: "string \<Rightarrow> string \<Rightarrow> bool" where
  "startsWith s t = (take (length t) s = t)"

fun js_includes :: "string \<Rightarrow> string \<Rightarrow> bool" where
  "js_includes [] t = (t = [])"
| "js_includes (c # cs) t = (startsWith (c # cs) t \<or> js_includes cs t)"

text \<open>\<^verbatim>\<open>s.split(sep)\<close> for a one-character separator; the result is never empty.\<close>

fun split_char :: "char \<Rightarrow> string \<Rightarrow> string list" where
  "split_char sep [] = [[]]"
| "split_char sep (c # cs) =
     (if c = sep then [] # split_char sep cs
      else (case split_char sep cs of
              w # ws \<Rightarrow> (c # w) # ws
            | [] \<Rightarrow> [[c]]))"

text \<open>\<^verbatim>\<open>s.replace(pat, rep)\<close> for a string pattern: the first occurrence only.\<close>

fun replace_first :: "string \<Rightarrow> string \<Rightarrow> string \<Rightarrow> string" where
  "replace_first [] pat rep = (if pat = [] then rep else [])"
| "replace_first (c # cs) pat rep =
     (if startsWith (c # cs) pat then rep @ drop (length pat) (c # cs)
      else c # replace_first cs pat rep)"

text \<open>
  \<^verbatim>\<open>s.replace(/\.[^.]+$/, '.test$&')\<close>: the pattern matches from the last dot of \<open>s\<close>
  to its end, when that dot exists and is not the last character; the replacement puts
  \<^verbatim>\<open>.test\<close> in front of the match.
\<close>

definition replace_ext_test :: "string \<Rightarrow> string" where
  "replace_ext_test s =
     (let tail = takeWhile (\<lambda>c. c \<noteq> CHR ''.'') (rev s)
      in if tail = [] \<or> length tail = length s then s
         else rev (drop (length tail + 1) (rev s)) @ ''.test'' @ ''.'' @ rev tail)"

text \<open>Decimal digits of a non-negative integer, as a template literal prints it.\<close>

definition digit :: "nat \<Rightarrow> char" where
  "digit d = ''0123456789'' ! d"

fun decimal :: "nat \<Rightarrow> string" where
  "decimal n = (if 10 \<le> n then decimal (n div 10) @ [digit (n mod 10)] else [digit n])"

definition number_toString :: "int \<Rightarrow> string" where
  "number_toString i = (if 0 \<le> i then decimal (nat i) else CHR ''-'' # decimal (nat (- i)))"

definition newline :: char where
  "newline = CHR 0x0A"

text \<open>
  White space as \<^verbatim>\<open>\s\<close> and \<^verbatim>\<open>trim()\<close> see it (space, tab, line feed, vertical tab,
  form feed, carriage return), word characters as \<^verbatim>\<open>\w\<close> sees them, and the line
  terminators that \<^verbatim>\<open>.\<close> does not match.
\<close>

definition is_space :: "char \<Rightarrow> bool" where
  "is_space c = (c \<in> set [CHR '' '', CHR 0x09, CHR 0x0A, CHR 0x0B, CHR 0x0C, CHR 0x0D])"

definition is_lower :: "char \<Rightarrow> bool" where
  "is_lower c = (c \<in> set ''abcdefghijklmnopqrstuvwxyz'')"

definition is_upper :: "char \<Rightarrow> bool" where
  "is_upper c = (c \<in> set ''ABCDEFGHIJKLMNOPQRSTUVWXYZ'')"

definition is_digit :: "char \<Rightarrow> bool" where
  "is_digit c = (c \<in> set ''0123456789'')"

definition is_word :: "char \<Rightarrow> bool" where
  "is_word c = (is_lower c \<or> is_upper c \<or> is_digit c \<or> c = CHR ''_'')"

definition trimStart :: "string \<Rightarrow> string" where
  "trimStart s = dropWhile is_space s"

definition trim :: "string \<Rightarrow> string" where
  "trim s = rev (dropWhile is_space (rev (dropWhile is_space s)))"

definition lower_char :: "char \<Rightarrow> char" where
  "lower_char c = (case map_of (zip ''ABCDEFGHIJKLMNOPQRSTUVWXYZ'' ''abcdefghijklmnopqrstuvwxyz'') c of
                     Some l \<Rightarrow> l
                   | None \<Rightarrow> c)"

definition toLowerCase :: "string \<Rightarrow> string" where
  "toLowerCase s = map lower_char s"

text \<open>\<^verbatim>\<open>xs.join(sep)\<close>.\<close>

fun join :: "string \<Rightarrow> string list \<Rightarrow> string" where
  "join sep [] = []"
| "join sep [x] = x"
| "join sep (x # y # ys) = x @ sep @ join sep (y # ys)"

text \<open>
  \<^verbatim>\<open>s.split(/\s+/)\<close>: the pieces between maximal runs of white space; a run at either
  end of the string leaves an empty piece there, and the result is never empty.
\<close>

fun split_spaces :: "string \<Rightarrow> string list" where
  "split_spaces [] = [[]]"
| "split_spaces (c # cs) =
     (if is_space c then
        (case cs of
           [] \<Rightarrow> [] # split_spaces cs
         | d # _ \<Rightarrow> (if is_space d then split_spaces cs else [] # split_spaces cs))
      else (case split_spaces cs of
              w # ws \<Rightarrow> (c # w) # ws
            | [] \<Rightarrow> [[c]]))"

text \<open>
  \<^verbatim>\<open>xs.slice(0, k)\<close> for a finite number \<open>k\<close>: the fraction of \<open>k\<close> is dropped, and a
  negative end counts from the end of the list.
\<close>

definition toInteger :: "real \<Rightarrow> int" where
  "toInteger k = (if 0 \<le> k then \<lfloor>k\<rfloor> else \<lceil>k\<rceil>)"

definition slice0 :: "'a list \<Rightarrow> real \<Rightarrow> 'a list" where
  "slice0 xs k =
     (let n = toInteger k
      in if 0 \<le> n then take (nat n) xs else take (length xs - nat (- n)) xs)"

text \<open>\<^verbatim>\<open>[...new Set(xs)]\<close>: the first occurrence of each element, in order.\<close>

fun unique :: "'a list \<Rightarrow> 'a list \<Rightarrow> 'a list" where
  "unique seen [] = []"
| "unique seen (x # xs) = (if x \<in> set seen then unique seen xs else x # unique (x # seen) xs)"

section \<open>Regular expressions\<close>

text \<open>
  Every regular expression of the analyzer is a sequence of character classes, each taken
  once or under a greedy \<^verbatim>\<open>+\<close> or \<^verbatim>\<open>*\<close>, and each capture group encloses exactly one
  such item.  An expression is therefore a list of items; matching is the backtracking
  search of JavaScript: a quantified item first takes the longest run it can and gives
  characters back one at a time until the rest of the expression matches.
\<close>

datatype cls = Lit char | Space | NonSpace | Word | AnyChar | OneOf string | NoneOf string

datatype quant = Once | Plus | Star

datatype item = Item cls quant bool

fun cls_matches :: "cls \<Rightarrow> char \<Rightarrow> bool" where
  "cls_matches (Lit l) c = (c = l)"
| "cls_matches Space c = is_space c"
| "cls_matches NonSpace c = (\<not> is_space c)"
| "cls_matches Word c = is_word c"
| "cls_matches AnyChar c = (c \<noteq> CHR 0x0A \<and> c \<noteq> CHR 0x0D)"
| "cls_matches (OneOf cs) c = (c \<in> set cs)"
| "cls_matches (NoneOf cs) c = (c \<notin> set cs)"

text \<open>A literal word, and a captured or uncaptured quantified class.\<close>

definition lit :: "string \<Rightarrow> item list" where
  "lit w = map (\<lambda>c. Item (Lit c) Once False) w"

definition first_some :: "'a option list \<Rightarrow> 'a option" where
  "first_some xs = (case filter (\<lambda>x. x \<noteq> None) xs of [] \<Rightarrow> None | x # _ \<Rightarrow> x)"

text \<open>
  \<open>match_here r s\<close> matches \<open>r\<close> at the start of \<open>s\<close> and returns the captured strings
  and what is left of \<open>s\<close> after the match.
\<close>

fun match_here :: "item list \<Rightarrow> string \<Rightarrow> (string list \<times> string) option" where
  "match_here [] s = Some ([], s)"
| "match_here (Item c q cap # r) s =
     (let longest = length (takeWhile (cls_matches c) s);
          counts = (case q of
                      Once \<Rightarrow> (if 1 \<le> longest then [1] else [])
                    | Plus \<Rightarrow> rev [1..<Suc longest]
                    | Star \<Rightarrow> rev [0..<Suc longest])
      in first_some
           (map (\<lambda>n. case match_here r (drop n s) of
                        None \<Rightarrow> None
                      | Some (caps, rest) \<Rightarrow>
                          Some ((if cap then take n s # caps else caps), rest))
                counts))"

text \<open>
  \<^verbatim>\<open>s.match(r)\<close> for an expression without the \<^verbatim>\<open>g\<close> flag: anchored expressions
  (\<^verbatim>\<open>^...\<close>) match at the start only, the others at the leftmost position that matches.
\<close>

fun search :: "item list \<Rightarrow> string \<Rightarrow> (string list \<times> string) option" where
  "search r [] = match_here r []"
| "search r (c # cs) =
     (case match_here r (c # cs) of
        Some m \<Rightarrow> Some m
      | None \<Rightarrow> search r cs)"

text \<open>
  \<^verbatim>\<open>s.matchAll(r)\<close> for an expression with the \<^verbatim>\<open>g\<close> flag whose matches are never empty:
  the captures of the successive matches, each search starting where the previous match
  ended.  The fuel is the length of the string.
\<close>

fun matchAll_from :: "nat \<Rightarrow> item list \<Rightarrow> string \<Rightarrow> string list list" where
  "matchAll_from 0 r s = []"
| "matchAll_from (Suc fuel) r s =
     (case search r s of
        None \<Rightarrow> []
      | Some (caps, rest) \<Rightarrow>
          (if length rest < length s then caps # matchAll_from fuel r rest else []))"

definition matchAll :: "item list \<Rightarrow> string \<Rightarrow> string list list" where
  "matchAll r s = matchAll_from (Suc (length s)) r s"

section \<open>Node's path module on POSIX\<close>

text \<open>
  \<^verbatim>\<open>path.dirname\<close>: trailing slashes and the last component are dropped, together with
  the one slash in front of it; the first character never counts as that slash.
\<close>

definition dirname :: "string \<Rightarrow> string" where
  "dirname p =
     (if p = [] then ''.''
      else
        (let hasRoot = (hd p = CHR ''/'');
             scanned = dropWhile (\<lambda>c. c \<noteq> CHR ''/'')
                         (dropWhile (\<lambda>c. c = CHR ''/'') (rev (tl p)));
             endIndex = length scanned
         in if scanned = [] then (if hasRoot then ''/'' else ''.'')
            else if hasRoot \<and> endIndex = 1 then ''//''
            else take endIndex p))"

text \<open>
  \<^verbatim>\<open>path.extname\<close>: from the last dot of the last path component to its end; empty when
  that component has no dot, when its only dot is its first character, or when it is
  \<^verbatim>\<open>..\<close>.
\<close>

definition extname :: "string \<Rightarrow> string" where
  "extname p =
     (let base = rev (takeWhile (\<lambda>c. c \<noteq> CHR ''/'') (dropWhile (\<lambda>c. c = CHR ''/'') (rev p)));
          ext = rev (takeWhile (\<lambda>c. c \<noteq> CHR ''.'') (rev base))
      in if CHR ''.'' \<in> set base
         then (if length ext + 1 = length base then []
               else if base = ''..'' then []
               else CHR ''.'' # ext)
         else [])"

text \<open>
  \<^verbatim>\<open>path.resolve\<close>: the arguments are prepended from right to left until one is
  absolute, the working directory coming last; the result is normalised: empty and
  \<^verbatim>\<open>.\<close> segments vanish and \<^verbatim>\<open>..\<close> removes the segment before it (at the root of an
  absolute path it vanishes; in a relative path it stays when nothing is left to remove).
\<close>

fun prepend_until_absolute :: "string list \<Rightarrow> string \<Rightarrow> string \<times> bool" where
  "prepend_until_absolute [] acc = (acc, False)"
| "prepend_until_absolute (p # ps) acc =
     (if p = [] then prepend_until_absolute ps acc
      else if hd p = CHR ''/'' then (p @ ''/'' @ acc, True)
      else prepend_until_absolute ps (p @ ''/'' @ acc))"

fun normalizeSegments :: "bool \<Rightarrow> string list \<Rightarrow> string list \<Rightarrow> string list" where
  "normalizeSegments allowAboveRoot [] stack = rev stack"
| "normalizeSegments allowAboveRoot (seg # segs) stack =
     (if seg = [] then normalizeSegments allowAboveRoot segs stack
      else if seg = ''.'' then normalizeSegments allowAboveRoot segs stack
      else if seg = ''..'' then
        (case stack of
           [] \<Rightarrow> normalizeSegments allowAboveRoot segs (if allowAboveRoot then [''..''] else [])
         | prev # below \<Rightarrow>
             (if prev = ''..''
              then normalizeSegments allowAboveRoot segs
                     (if allowAboveRoot then ''..'' # stack else stack)
              else normalizeSegments allowAboveRoot segs below))
      else normalizeSegments allowAboveRoot segs (seg # stack))"

definition path_resolve :: "string \<Rightarrow> string list \<Rightarrow> string" where
  "path_resolve workdir args =
     (case prepend_until_absolute (rev args @ [workdir]) [] of
        (resolvedPath, resolvedAbsolute) \<Rightarrow>
          (let normalized = join ''/'' (normalizeSegments (\<not> resolvedAbsolute)
                                          (split_char CHR ''/'' resolvedPath) [])
           in if resolvedAbsolute then CHR ''/'' # normalized
              else if normalized = [] then ''.''
              else normalized))"



section \<open>The platform: parser, file system, clock, random numbers, oracle\<close>

text \<open>
  The Babel syntax tree, reduced to what \<^verbatim>\<open>CodeAnalyzer\<close> reads from it: the node type,
  the start line of \<^verbatim>\<open>loc\<close> (absent when the node has no location), the fields the
  visitors inspect, and the child nodes in traversal order.  The parser returns a
  \<^verbatim>\<open>File\<close> node whose one child is the \<^verbatim>\<open>Program\<close> node; \<^verbatim>\<open>traverse\<close> does not enter the
  node it is given, so the first node it enters is \<^verbatim>\<open>Program\<close>, and then the statements
  of the program.  Babel has no node type \<^verbatim>\<open>MethodDefinition\<close>: the methods of a class
  are \<^verbatim>\<open>ClassMethod\<close> nodes, which are among the other nodes here.
\<close>

datatype expr = Identifier string | MemberExpression expr expr | OtherExpression

datatype import_specifier =
    ImportDefaultSpecifier string
  | ImportSpecifier "string option"
  | ImportNamespaceSpecifier string

text \<open>
  \<open>ImportSpecifier (Some n)\<close>: the imported binding is the identifier \<open>n\<close>;
  \<open>ImportSpecifier None\<close>: it is a string literal.  A declarator of a variable
  declaration is \<open>Some n\<close> when its \<^verbatim>\<open>id\<close> is the identifier \<open>n\<close> and \<open>None\<close> when it
  is a pattern.
\<close>

datatype decl =
    FunctionDecl "string option"
  | ClassDecl "string option"
  | VariableDecl "string option list"
  | OtherDecl

datatype node_data =
    Program
  | ImportDeclaration string "import_specifier list"
  | ExportNamedDeclaration "decl option"
  | ExportDefaultDeclaration decl
  | ClassDeclaration "string option" "expr option" "expr list option"
  | CallExpression expr
  | FunctionDeclaration "string option"
  | FunctionExpression
  | ArrowFunctionExpression
  | IfStatement
  | WhileStatement
  | ForStatement
  | SwitchCase
  | ConditionalExpression
  | LogicalExpression
  | OtherNode

datatype node = Node (node_data: node_data) (start_line: "nat option") (children: "node list")

datatype js_error = SyntaxError | TypeError | ENOENT

text \<open>
  What the code obtains from outside itself.  \<open>readFile\<close> is \<^verbatim>\<open>fs/promises.readFile\<close>
  (\<open>None\<close>: the promise rejects).  \<open>parse\<close> is \<^verbatim>\<open>@babel/parser\<close> with the options the
  analyzer passes: \<open>Inl\<close> when it throws, otherwise the statements of the program, which
  are the children of the \<^verbatim>\<open>Program\<close> node.  \<open>traverse_callable\<close> tells what the default
  import of \<^verbatim>\<open>@babel/traverse\<close> is bound to.  That package is a CommonJS module that
  sets \<^verbatim>\<open>exports.default\<close>: a loader that honours \<^verbatim>\<open>__esModule\<close> binds the function
  \<^verbatim>\<open>traverse\<close>, and the field is \<open>True\<close>; the ES module loader of Node (the package
  declares \<^verbatim>\<open>"type": "module"\<close>) binds the object \<^verbatim>\<open>module.exports\<close>, the call
  \<^verbatim>\<open>traverse(ast, ...)\<close> throws a \<^verbatim>\<open>TypeError\<close>, and the field is \<open>False\<close>.  \<open>cwd\<close> is
  \<^verbatim>\<open>process.cwd()\<close>, \<open>now\<close> is the reading of \<^verbatim>\<open>new Date()\<close>, \<open>random k\<close> is the result of
  the \<open>k\<close>-th call of \<^verbatim>\<open>Math.random()\<close>, and \<open>embeddings_create\<close> and \<open>chat_create\<close>
  are the OpenAI client's \<^verbatim>\<open>embeddings.create\<close> and \<^verbatim>\<open>chat.completions.create\<close>, reduced
  to the part of the response the code uses (\<open>None\<close>: the call throws).  \<open>glob\<close> is the
  \<^verbatim>\<open>glob\<close> package called with the analyzer's ignore list (\<open>None\<close>: it throws).
\<close>

record platform =
  readFile :: "string \<Rightarrow> string option"
  parse :: "string \<Rightarrow> js_error + node list"
  traverse_callable :: bool
  cwd :: string
  now :: nat
  random :: "nat \<Rightarrow> real"
  embeddings_create :: "string \<Rightarrow> real list option option"
  chat_create :: "string \<Rightarrow> string option option"
  glob :: "string \<Rightarrow> string list option"

section \<open>Code analyzer (utils/CodeAnalyzer.ts)\<close>

subsection \<open>File discovery\<close>




subsection \<open>Textual features\<close>

text \<open>
  \<^verbatim>\<open>content.match(/\b[a-zA-Z_][a-zA-Z0-9_]*\b/g) || []\<close>: the maximal runs of word
  characters that do not start with a digit, in order.
\<close>

fun word_runs :: "string \<Rightarrow> string list" where
  "word_runs [] = []"
| "word_runs (c # cs) =
     (if is_word c then
        (case cs of
           [] \<Rightarrow> [[c]]
         | d # _ \<Rightarrow>
             (if is_word d then
                (case word_runs cs of
                   w # ws \<Rightarrow> (c # w) # ws
                 | [] \<Rightarrow> [[c]])
              else [c] # word_runs cs))
      else word_runs cs)"

definition identifier_matches :: "string \<Rightarrow> string list" where
  "identifier_matches text = filter (\<lambda>w. case w of [] \<Rightarrow> False | c # _ \<Rightarrow> \<not> is_digit c) (word_runs text)"

definition langKeywords :: "string \<Rightarrow> string list" where
  "langKeywords extension =
     (if extension = ''.js'' then
        [''var'', ''let'', ''const'', ''function'', ''if'', ''else'', ''for'', ''while'', ''return'',
         ''class'', ''import'', ''export'']
      else if extension = ''.ts'' then
        [''var'', ''let'', ''const'', ''function'', ''if'', ''else'', ''for'', ''while'', ''return'',
         ''class'', ''import'', ''export'', ''interface'', ''type'']
      else if extension = ''.py'' then
        [''def'', ''class'', ''if'', ''else'', ''for'', ''while'', ''return'', ''import'', ''from'',
         ''try'', ''except'']
      else if extension = ''.java'' then
        [''public'', ''private'', ''class'', ''interface'', ''if'', ''else'', ''for'', ''while'',
         ''return'', ''import'']
      else if extension = ''.cpp'' then
        [''int'', ''void'', ''class'', ''if'', ''else'', ''for'', ''while'', ''return'', ''include'',
         ''namespace'']
      else [])"

definition isKeyword :: "string \<Rightarrow> string \<Rightarrow> bool" where
  "isKeyword identifier extension = (toLowerCase identifier \<in> set (langKeywords extension))"

definition line_comments :: "string \<Rightarrow> string list" where
  "line_comments line =
     (let trimmed = trim line
      in (if startsWith trimmed ''//'' \<or> startsWith trimmed ''#'' then [trimmed] else [])
         @ (if js_includes trimmed ''/*''
               \<or> js_includes trimmed [CHR 0x22, CHR 0x22, CHR 0x22]
               \<or> js_includes trimmed [CHR 0x27, CHR 0x27, CHR 0x27]
            then [trimmed] else []))"

definition extractTextualFeatures :: "string \<Rightarrow> string \<Rightarrow> textualFeatures" where
  "extractTextualFeatures text extension =
     (let lines = split_char newline text;
          matches = identifier_matches text;
          uniqueIdentifiers = unique [] matches;
          identifiers = filter (\<lambda>w. 2 < length w \<and> \<not> isKeyword w extension) uniqueIdentifiers
      in \<lparr>docstrings = [],
          comments = concat (map line_comments lines),
          identifierNames = identifiers,
          variableNames =
            filter (\<lambda>w. (case w of [] \<Rightarrow> False | c # _ \<Rightarrow> is_lower c)
                         \<and> \<not> js_includes w ''function'' \<and> \<not> js_includes w ''class'')
                   identifiers\<rparr>)"

subsection \<open>Structural features\<close>

definition complexityKeywords :: "string list" where
  "complexityKeywords = [''if'', ''while'', ''for'', ''switch'', ''case'', ''catch'', ''&&'', ''||'', ''?'']"

definition functionKeywords :: "string list" where
  "functionKeywords = [''def '', ''function '', ''func '', ''public '', ''private '', ''protected '']"

definition classKeywords :: "string list" where
  "classKeywords = [''class '', ''interface '', ''struct '']"

text \<open>
  One round of the loop of \<^verbatim>\<open>extractStructuralHeuristics\<close>: the state is the features
  record and \<^verbatim>\<open>maxIndent\<close>; every keyword found adds one to its counter.
\<close>

definition heuristics_line :: "structuralFeatures \<times> int \<Rightarrow> string \<Rightarrow> structuralFeatures \<times> int" where
  "heuristics_line state line =
     (case state of
        (features, maxIndent) \<Rightarrow>
          (let trimmed = trim line;
               indent = int (length line) - int (length (trimStart line));
               currentIndent = indent div 2
           in (features
                 \<lparr>complexity := complexity features
                    + int (length (filter (\<lambda>keyword. js_includes trimmed keyword) complexityKeywords)),
                  functionCount := functionCount features
                    + int (length (filter (\<lambda>keyword. startsWith trimmed keyword
                                                  \<or> js_includes trimmed (keyword @ '' ''))
                                          functionKeywords)),
                  classCount := classCount features
                    + int (length (filter (\<lambda>keyword. startsWith trimmed keyword) classKeywords))\<rparr>,
               max maxIndent currentIndent)))"

definition extractStructuralHeuristics :: "string \<Rightarrow> structuralFeatures" where
  "extractStructuralHeuristics text =
     (let lines = split_char newline text;
          features = \<lparr>astNodes = int (length lines) * 2, complexity = 1, nestingDepth = 0,
                      functionCount = 0, classCount = 0\<rparr>
      in case foldl heuristics_line (features, 0) lines of
           (counted, maxIndent) \<Rightarrow> counted\<lparr>nestingDepth := maxIndent\<rparr>)"

text \<open>
  The \<^verbatim>\<open>enter\<close> visitor of \<^verbatim>\<open>extractStructuralFeatures\<close>, on the state made of the
  features record, \<^verbatim>\<open>currentDepth\<close> and \<^verbatim>\<open>maxDepth\<close>.  Its test for functions is
  \<^verbatim>\<open>path.isFunctionDeclaration() || path.isFunctionExpression() ||
  path.isArrowFunctionExpression() || path.isMethodDefinition()\<close> (lines 202 to 205).  A
  Babel path has the first three methods and no method \<^verbatim>\<open>isMethodDefinition\<close>: on a node
  that is none of the three kinds of function the fourth operand is evaluated, and calling
  the undefined property throws a \<^verbatim>\<open>TypeError\<close>.  On a function node the disjunction is
  decided before the fourth operand, the function is counted, and the test for classes
  follows.
\<close>

definition is_complexity_node :: "node_data \<Rightarrow> bool" where
  "is_complexity_node d = (d \<in> set [IfStatement, WhileStatement, ForStatement, SwitchCase,
                                     ConditionalExpression, LogicalExpression])"

fun is_function_node :: "node_data \<Rightarrow> bool" where
  "is_function_node (FunctionDeclaration _) = True"
| "is_function_node FunctionExpression = True"
| "is_function_node ArrowFunctionExpression = True"
| "is_function_node _ = False"

fun is_class_node :: "node_data \<Rightarrow> bool" where
  "is_class_node (ClassDeclaration _ _ _) = True"
| "is_class_node _ = False"

type_synonym counting = "structuralFeatures \<times> int \<times> int"

definition enter_node :: "node_data \<Rightarrow> counting \<Rightarrow> js_error + counting" where
  "enter_node d state =
     (case state of
        (features, currentDepth, deepest) \<Rightarrow>
          (let counted = features
                 \<lparr>astNodes := astNodes features + 1,
                  complexity := complexity features + (if is_complexity_node d then 1 else 0)\<rparr>;
               depth = currentDepth + 1
           in if is_function_node d then
                Inr (counted\<lparr>functionCount := functionCount counted + 1,
                             classCount := classCount counted + (if is_class_node d then 1 else 0)\<rparr>,
                     depth, max deepest depth)
              else Inl TypeError))"

text \<open>
  The traversal: a node is entered, its children are traversed in order, and the \<^verbatim>\<open>exit\<close>
  visitor takes one from \<^verbatim>\<open>currentDepth\<close>.  An exception of the visitor ends the
  traversal and leaves \<^verbatim>\<open>traverse\<close>.
\<close>

fun count_node :: "node \<Rightarrow> js_error + counting \<Rightarrow> js_error + counting" where
  "count_node (Node d l ch) (Inl e) = Inl e"
| "count_node (Node d l ch) (Inr state) =
     (case enter_node d state of
        Inl e \<Rightarrow> Inl e
      | Inr entered \<Rightarrow>
          (case fold count_node ch (Inr entered) of
             Inl e \<Rightarrow> Inl e
           | Inr (features, currentDepth, deepest) \<Rightarrow> Inr (features, currentDepth - 1, deepest)))"

text \<open>
  The \<^verbatim>\<open>Program\<close> node above the statements the parser returned; no visitor reads its
  location.
\<close>

definition program :: "node list \<Rightarrow> node" where
  "program body = Node Program None body"

definition jsExtensions :: "string list" where
  "jsExtensions = [''.js'', ''.jsx'', ''.ts'', ''.tsx'']"

text \<open>
  \<^verbatim>\<open>features\<close> is declared with \<^verbatim>\<open>const\<close> (line 151 of the file).  The two statements
  \<^verbatim>\<open>features = this.extractStructuralHeuristics(content)\<close>, one in the \<^verbatim>\<open>else\<close> branch of
  the \<^verbatim>\<open>try\<close> block and one in the \<^verbatim>\<open>catch\<close> block, assign to that constant: the
  TypeScript compiler reports them (TS2588), and in the JavaScript that runs the
  right-hand side is evaluated and the assignment then throws a \<^verbatim>\<open>TypeError\<close>
  (assignment to constant variable).
\<close>

definition assign_to_const :: "structuralFeatures \<Rightarrow> js_error + structuralFeatures" where
  "assign_to_const computed = Inl TypeError"

text \<open>
  \<^verbatim>\<open>extractStructuralFeatures\<close>.  In the \<^verbatim>\<open>try\<close> block the parser may throw, the call of
  \<^verbatim>\<open>traverse\<close> throws when the import is not the function, and the \<^verbatim>\<open>enter\<close> visitor may
  throw; every exception reaches the \<^verbatim>\<open>catch\<close> block, whose assignment throws in turn.
\<close>

definition extractStructuralFeatures :: "platform \<Rightarrow> string \<Rightarrow> string \<Rightarrow> js_error + structuralFeatures" where
  "extractStructuralFeatures env text extension =
     (let features = \<lparr>astNodes = 0, complexity = 1, nestingDepth = 0, functionCount = 0,
                      classCount = 0\<rparr>;
          tryBlock =
            (if extension \<in> set jsExtensions then
               (case parse env text of
                  Inl e \<Rightarrow> Inl e
                | Inr body \<Rightarrow>
                    (if traverse_callable env then
                       (case count_node (program body) (Inr (features, 0, 0)) of
                          Inl e \<Rightarrow> Inl e
                        | Inr (counted, currentDepth, deepest) \<Rightarrow>
                            Inr (counted\<lparr>nestingDepth := deepest\<rparr>))
                     else Inl TypeError))
             else assign_to_const (extractStructuralHeuristics text))
      in case tryBlock of
           Inr result \<Rightarrow> Inr result
         | Inl e \<Rightarrow> assign_to_const (extractStructuralHeuristics text))"

subsection \<open>Relationships of JavaScript and TypeScript files\<close>

text \<open>
  \<^verbatim>\<open>resolveImportPath\<close>: a specifier that starts with \<^verbatim>\<open>./\<close> or \<^verbatim>\<open>../\<close> is resolved
  against the directory of the importing file, any other is returned as it is.
\<close>

definition resolveImportPath :: "platform \<Rightarrow> string \<Rightarrow> string \<Rightarrow> string" where
  "resolveImportPath env importPath currentFile =
     (if startsWith importPath ''./'' \<or> startsWith importPath ''../'' then
        (let currentDir = dirname currentFile
         in path_resolve (cwd env) [currentDir, importPath])
      else importPath)"

text \<open>
  \<^verbatim>\<open>content.split('\n')[line - 1] || ''\<close>, where \<^verbatim>\<open>line\<close> is the start line of the node
  when it has a location.
\<close>

definition statement_at :: "string \<Rightarrow> nat option \<Rightarrow> string" where
  "statement_at text l =
     (let lines = split_char newline text
      in case l of
           None \<Rightarrow> []
         | Some n \<Rightarrow> (if 1 \<le> n \<and> n \<le> length lines then lines ! (n - 1) else []))"

text \<open>The \<^verbatim>\<open>forEach\<close> over the specifiers of an import: the symbols and the import type.\<close>

fun import_specifier_step :: "string list \<times> importType \<Rightarrow> import_specifier \<Rightarrow> string list \<times> importType" where
  "import_specifier_step (syms, ty) (ImportDefaultSpecifier name) = (syms @ [name], default_import)"
| "import_specifier_step (syms, ty) (ImportSpecifier imported) =
     (syms @ [case imported of Some name \<Rightarrow> name | None \<Rightarrow> ''unknown''], ty)"
| "import_specifier_step (syms, ty) (ImportNamespaceSpecifier name) = (syms @ [name], namespace_import)"

definition importRelation :: "platform \<Rightarrow> string \<Rightarrow> string \<Rightarrow> string \<Rightarrow> import_specifier list \<Rightarrow> nat option \<Rightarrow> ImportRelation" where
  "importRelation env text path importPath specs l =
     (case foldl import_specifier_step ([], named_import) specs of
        (syms, ty) \<Rightarrow>
          \<lparr>import_from = path,
           import_to = resolveImportPath env importPath path,
           symbols = syms,
           importType = ty,
           import_lineNumber = l,
           import_statement = statement_at text l\<rparr>)"

definition namedExport :: "string \<Rightarrow> string \<Rightarrow> string \<Rightarrow> nat option \<Rightarrow> ExportRelation" where
  "namedExport text path name l =
     \<lparr>export_from = path, export_symbol = name, exportType = named_export,
      export_lineNumber = l, export_statement = statement_at text l\<rparr>"

fun namedExports :: "string \<Rightarrow> string \<Rightarrow> decl option \<Rightarrow> nat option \<Rightarrow> ExportRelation list" where
  "namedExports text path (Some (FunctionDecl (Some name))) l = [namedExport text path name l]"
| "namedExports text path (Some (VariableDecl ids)) l =
     concat (map (\<lambda>d. case d of Some name \<Rightarrow> [namedExport text path name l] | None \<Rightarrow> []) ids)"
| "namedExports text path _ l = []"

fun defaultExportName :: "decl \<Rightarrow> string" where
  "defaultExportName (FunctionDecl (Some name)) = name"
| "defaultExportName (ClassDecl (Some name)) = name"
| "defaultExportName _ = ''default''"

fun classRelations :: "string option \<Rightarrow> expr option \<Rightarrow> expr list option \<Rightarrow> nat option \<Rightarrow> InheritanceRelation list" where
  "classRelations (Some name) super impls l =
     (case super of
        Some (Identifier parent) \<Rightarrow>
          [\<lparr>inherit_from = name, inherit_to = parent, inherit_type = extends_type,
            inherit_lineNumber = l, interfaceName = None\<rparr>]
      | _ \<Rightarrow> [])
     @ (case impls of
          None \<Rightarrow> []
        | Some es \<Rightarrow>
            concat (map (\<lambda>e. case e of
                               Identifier iface \<Rightarrow>
                                 [\<lparr>inherit_from = name, inherit_to = iface,
                                   inherit_type = implements_type,
                                   inherit_lineNumber = l, interfaceName = Some iface\<rparr>]
                             | _ \<Rightarrow> []) es))"
| "classRelations None super impls l = []"

text \<open>
  \<^verbatim>\<open>findContainingFunction\<close> starts at \<^verbatim>\<open>path.parent\<close>, the parent syntax node, which
  every node below \<^verbatim>\<open>Program\<close> has.  When the parent is a function declaration with a name,
  the name is returned.  Otherwise the next test is \<^verbatim>\<open>t.isMethodDefinition(parent)\<close> (line
  653); \<^verbatim>\<open>@babel/types\<close> exports no such function, and the call throws a \<^verbatim>\<open>TypeError\<close>.
  So the loop has one round, and \<^verbatim>\<open>null\<close> is not returned.  An empty name is falsy, so
  the caller's \<^verbatim>\<open>|| 'global'\<close> replaces it like \<^verbatim>\<open>null\<close>.
\<close>

fun findContainingFunction :: "node_data \<Rightarrow> js_error + string option" where
  "findContainingFunction (FunctionDeclaration (Some name)) = Inr (Some name)"
| "findContainingFunction _ = Inl TypeError"

fun calleeNames :: "expr \<Rightarrow> string \<times> string" where
  "calleeNames (Identifier name) = (name, [])"
| "calleeNames (MemberExpression ob prop) =
     ((case prop of Identifier name \<Rightarrow> name | _ \<Rightarrow> []),
      (case ob of Identifier name \<Rightarrow> name | _ \<Rightarrow> []))"
| "calleeNames OtherExpression = ([], [])"

text \<open>
  The \<^verbatim>\<open>CallExpression\<close> visitor: a call without a name is skipped; for a call with a
  name the object literal is built, its last property calls \<^verbatim>\<open>findContainingFunction\<close>,
  and when that throws nothing has been pushed.
\<close>

definition callRelations :: "string \<Rightarrow> node_data \<Rightarrow> expr \<Rightarrow> nat option \<Rightarrow> js_error + CallRelation list" where
  "callRelations path parent callee l =
     (case calleeNames callee of
        (functionName, objectName) \<Rightarrow>
          (if functionName = [] then Inr []
           else (case findContainingFunction parent of
                   Inl e \<Rightarrow> Inl e
                 | Inr enclosing \<Rightarrow>
                     Inr [\<lparr>call_from = path,
                           call_to = functionName,
                           call_object = (if objectName = [] then None else Some objectName),
                           call_lineNumber = l,
                           callType = direct_call,
                           call_context = (case enclosing of
                                             None \<Rightarrow> ''global''
                                           | Some name \<Rightarrow> (if name = [] then ''global'' else name))\<rparr>])))"

text \<open>The visitors of \<^verbatim>\<open>extractJavaScriptRelationships\<close>, applied to one node.\<close>

fun visit_node :: "platform \<Rightarrow> string \<Rightarrow> string \<Rightarrow> node_data \<Rightarrow> node_data \<Rightarrow> nat option \<Rightarrow> CodeRelationships \<Rightarrow> js_error + CodeRelationships" where
  "visit_node env text path parent (ImportDeclaration importPath specs) l rels =
     Inr (rels\<lparr>rel_imports := rel_imports rels @ [importRelation env text path importPath specs l]\<rparr>)"
| "visit_node env text path parent (ExportNamedDeclaration d) l rels =
     Inr (rels\<lparr>rel_exports := rel_exports rels @ namedExports text path d l\<rparr>)"
| "visit_node env text path parent (ExportDefaultDeclaration d) l rels =
     Inr (rels\<lparr>rel_exports := rel_exports rels @
        [\<lparr>export_from = path, export_symbol = defaultExportName d, exportType = default_export,
          export_lineNumber = l, export_statement = statement_at text l\<rparr>]\<rparr>)"
| "visit_node env text path parent (ClassDeclaration name super impls) l rels =
     Inr (rels\<lparr>classInheritance := classInheritance rels @ classRelations name super impls l\<rparr>)"
| "visit_node env text path parent (CallExpression callee) l rels =
     (case callRelations path parent callee l of
        Inl e \<Rightarrow> Inl e
      | Inr calls \<Rightarrow> Inr (rels\<lparr>functionCalls := functionCalls rels @ calls\<rparr>))"
| "visit_node env text path parent _ l rels = Inr rels"

text \<open>
  The traversal, in the order of \<^verbatim>\<open>traverse\<close>: a node, then its children.  The state is
  the exception thrown so far, if any, and the relationships object.  The visitors push
  into the object of the caller, so what was collected before an exception stays in it.
\<close>

fun visit :: "platform \<Rightarrow> string \<Rightarrow> string \<Rightarrow> node_data \<Rightarrow> node \<Rightarrow> js_error option \<times> CodeRelationships \<Rightarrow> js_error option \<times> CodeRelationships" where
  "visit env text path parent (Node d l ch) (Some e, rels) = (Some e, rels)"
| "visit env text path parent (Node d l ch) (None, rels) =
     (case visit_node env text path parent d l rels of
        Inl e \<Rightarrow> (Some e, rels)
      | Inr visited \<Rightarrow> fold (visit env text path d) ch (None, visited))"

text \<open>
  \<^verbatim>\<open>extractJavaScriptRelationships\<close>: an exception of the parser, of the call of
  \<^verbatim>\<open>traverse\<close> or of a visitor is caught and logged (line 498).  The parent of \<^verbatim>\<open>Program\<close>
  is the \<^verbatim>\<open>File\<close> node, one of the other nodes.
\<close>

definition extractJavaScriptRelationships :: "platform \<Rightarrow> string \<Rightarrow> string \<Rightarrow> CodeRelationships \<Rightarrow> CodeRelationships" where
  "extractJavaScriptRelationships env text path rels =
     (case parse env text of
        Inl e \<Rightarrow> rels
      | Inr body \<Rightarrow>
          (if traverse_callable env
           then snd (visit env text path OtherNode (program body) (None, rels))
           else rels))"

subsection \<open>Relationships of Python files\<close>

definition re_import :: "item list" where
  "re_import = lit ''import'' @ [Item Space Plus False, Item AnyChar Plus True]"

definition re_from_import :: "item list" where
  "re_from_import = lit ''from'' @ [Item Space Plus False, Item NonSpace Plus True, Item Space Plus False]
                    @ lit ''import'' @ [Item Space Plus False, Item AnyChar Plus True]"

definition re_class :: "item list" where
  "re_class = lit ''class'' @ [Item Space Plus False, Item Word Plus True, Item Space Star False,
                               Item (Lit CHR ''('') Once False, Item Space Star False,
                               Item (NoneOf '')'') Plus True, Item Space Star False]
              @ lit ''):''"

definition re_method_call :: "item list" where
  "re_method_call = [Item Word Plus True, Item (Lit CHR ''.'') Once False, Item Word Plus True,
                     Item (Lit CHR ''('') Once False]"

definition re_def :: "item list" where
  "re_def = lit ''def'' @ [Item Space Plus False, Item Word Plus True]"

text \<open>
  \<^verbatim>\<open>findPythonFunction(lines, currentLine)\<close>: the nearest line at or above the current
  one that starts a \<^verbatim>\<open>def\<close>; the argument holds the lines \<open>currentLine, ..., 0\<close>.
\<close>

fun findPythonFunction :: "string list \<Rightarrow> string option" where
  "findPythonFunction [] = None"
| "findPythonFunction (l # earlier) =
     (case match_here re_def (trim l) of
        Some (name # _, _) \<Rightarrow> Some name
      | _ \<Rightarrow> findPythonFunction earlier)"

definition python_line :: "string \<Rightarrow> string list \<Rightarrow> CodeRelationships \<Rightarrow> nat \<Rightarrow> CodeRelationships" where
  "python_line path lines rels i =
     (let line = trim (lines ! i);
          lineNumber = i + 1;
          rels1 = (case match_here re_import line of
                     Some (mods # _, _) \<Rightarrow>
                       rels\<lparr>rel_imports := rel_imports rels @
                         map (\<lambda>m. \<lparr>import_from = path, import_to = m, symbols = [m],
                                    importType = named_import,
                                    import_lineNumber = Some lineNumber,
                                    import_statement = line\<rparr>)
                             (map trim (split_char CHR '','' mods))\<rparr>
                   | _ \<Rightarrow> rels);
          rels2 = (case match_here re_from_import line of
                     Some (m # syms # _, _) \<Rightarrow>
                       rels1\<lparr>rel_imports := rel_imports rels1 @
                         [\<lparr>import_from = path, import_to = m,
                           symbols = map trim (split_char CHR '','' syms),
                           importType = named_import,
                           import_lineNumber = Some lineNumber,
                           import_statement = line\<rparr>]\<rparr>
                   | _ \<Rightarrow> rels1);
          rels3 = (case match_here re_class line of
                     Some (className # parents # _, _) \<Rightarrow>
                       rels2\<lparr>classInheritance := classInheritance rels2 @
                         map (\<lambda>parent. \<lparr>inherit_from = className, inherit_to = parent,
                                         inherit_type = extends_type,
                                         inherit_lineNumber = Some lineNumber,
                                         interfaceName = None\<rparr>)
                             (map trim (split_char CHR '','' parents))\<rparr>
                   | _ \<Rightarrow> rels2);
          enclosing = (case findPythonFunction (rev (take (i + 1) lines)) of
                       None \<Rightarrow> ''global''
                     | Some name \<Rightarrow> name)
      in rels3\<lparr>functionCalls := functionCalls rels3 @
           concat (map (\<lambda>caps. case caps of
                                 ob # method # _ \<Rightarrow>
                                   [\<lparr>call_from = path, call_to = method, call_object = Some ob,
                                     call_lineNumber = Some lineNumber,
                                     callType = method_call,
                                     call_context = enclosing\<rparr>]
                               | _ \<Rightarrow> [])
                       (matchAll re_method_call line))\<rparr>)"

definition extractPythonRelationships :: "string \<Rightarrow> string \<Rightarrow> CodeRelationships \<Rightarrow> CodeRelationships" where
  "extractPythonRelationships text path rels =
     (let lines = split_char newline text
      in foldl (python_line path lines) rels [0..<length lines])"

subsection \<open>Relationships of files in other languages\<close>

definition importPatterns :: "item list list" where
  "importPatterns =
     [lit ''#include'' @ [Item Space Star False, Item (OneOf [CHR ''<'', CHR 0x22]) Once False,
                          Item (NoneOf [CHR ''>'', CHR 0x22]) Plus True,
                          Item (OneOf [CHR ''>'', CHR 0x22]) Once False],
      lit ''import'' @ [Item Space Plus False, Item (NoneOf '';'') Plus True] @ lit '';'',
      lit ''using'' @ [Item Space Plus False, Item (NoneOf '';'') Plus True] @ lit '';'']"

definition inheritancePatterns :: "item list list" where
  "inheritancePatterns =
     [lit ''class'' @ [Item Space Plus False, Item Word Plus True, Item Space Star False,
                       Item (Lit CHR '':'') Once False, Item Space Star False]
      @ lit ''public'' @ [Item Space Plus False, Item Word Plus True],
      lit ''class'' @ [Item Space Plus False, Item Word Plus True, Item Space Plus False]
      @ lit ''extends'' @ [Item Space Plus False, Item Word Plus True]]"

definition generic_line :: "string \<Rightarrow> string list \<Rightarrow> CodeRelationships \<Rightarrow> nat \<Rightarrow> CodeRelationships" where
  "generic_line path lines rels i =
     (let line = trim (lines ! i);
          lineNumber = i + 1;
          rels1 = foldl (\<lambda>acc pattern.
                     case match_here pattern line of
                       Some (target # _, _) \<Rightarrow>
                         acc\<lparr>dependencies := dependencies acc @
                           [\<lparr>dep_from = path, dep_to = target, dependencyType = builtin_dep,
                             dep_version = None, usage = [''include'']\<rparr>]\<rparr>
                     | _ \<Rightarrow> acc) rels importPatterns
      in foldl (\<lambda>acc pattern.
                  case search pattern line of
                    Some (child # parent # _, _) \<Rightarrow>
                      acc\<lparr>classInheritance := classInheritance acc @
                        [\<lparr>inherit_from = child, inherit_to = parent, inherit_type = extends_type,
                          inherit_lineNumber = Some lineNumber, interfaceName = None\<rparr>]\<rparr>
                  | _ \<Rightarrow> acc) rels1 inheritancePatterns)"

definition extractGenericRelationships :: "string \<Rightarrow> string \<Rightarrow> CodeRelationships \<Rightarrow> CodeRelationships" where
  "extractGenericRelationships text path rels =
     (let lines = split_char newline text
      in foldl (generic_line path lines) rels [0..<length lines])"

subsection \<open>The analysis of one file\<close>

definition extractRelationships :: "platform \<Rightarrow> string \<Rightarrow> string \<Rightarrow> string \<Rightarrow> CodeRelationships" where
  "extractRelationships env text path extension =
     (let rels = \<lparr>rel_filePath = path, rel_imports = [], rel_exports = [], functionCalls = [],
                  classInheritance = [], dependencies = [], compositions = [],
                  lastAnalyzed = now env\<rparr>
      in if extension \<in> set jsExtensions then extractJavaScriptRelationships env text path rels
         else if extension = ''.py'' then extractPythonRelationships text path rels
         else extractGenericRelationships text path rels)"

text \<open>
  \<^verbatim>\<open>analyzeFile\<close>: the result is \<^verbatim>\<open>null\<close> (\<open>None\<close>) when reading the file or extracting
  the structural features throws; nothing else in the \<^verbatim>\<open>try\<close> block can throw.
\<close>

definition analyzeFile :: "platform \<Rightarrow> string \<Rightarrow> CodeRepresentation option" where
  "analyzeFile env path =
     (case readFile env path of
        None \<Rightarrow> None
      | Some text \<Rightarrow>
          (let extension = extname path;
               textual = extractTextualFeatures text extension
           in case extractStructuralFeatures env text extension of
                Inl e \<Rightarrow> None
              | Inr structural \<Rightarrow>
                  Some \<lparr>filePath = path,
                        content = text,
                        textualFeatures = textual,
                        structuralFeatures = structural,
                        semanticFeatures = \<lparr>embedding = [], functionalSignature = [],
                                            behaviorPattern = []\<rparr>,
                        relationships = Some (extractRelationships env text path extension),
                        biasScore = 0,
                        augmentedEmbedding = [],
                        lastModified = now env\<rparr>))"

section \<open>Bias detector (core/BiasDetector.ts)\<close>

text \<open>
  \<^verbatim>\<open>maskTextualFeatures\<close> spreads the representation and replaces only its
  \<^verbatim>\<open>textualFeatures\<close>: docstrings and comments become empty lists, each identifier name
  becomes \<^verbatim>\<open>'masked_id'\<close> and each variable name \<^verbatim>\<open>'var_x'\<close>.
\<close>

definition maskTextualFeatures :: "CodeRepresentation \<Rightarrow> CodeRepresentation" where
  "maskTextualFeatures code =
     code\<lparr>textualFeatures :=
       \<lparr>docstrings = [],
        comments = [],
        identifierNames = map (\<lambda>_. ''masked_id'') (identifierNames (textualFeatures code)),
        variableNames = map (\<lambda>_. ''var_x'') (variableNames (textualFeatures code))\<rparr>\<rparr>"

text \<open>
  \<^verbatim>\<open>calculateStructuralSimilarity\<close>: four similarities, summed by \<^verbatim>\<open>reduce\<close> from 0 and
  divided by the length of the array.  \<^verbatim>\<open>Math.max(a, b, 1)\<close> is at least 1, so no
  division by zero occurs.
\<close>

definition calculateStructuralSimilarity :: "CodeRepresentation \<Rightarrow> CodeRepresentation \<Rightarrow> real" where
  "calculateStructuralSimilarity code1 code2 =
     (let struct1 = structuralFeatures code1;
          struct2 = structuralFeatures code2;
          similarities =
            [1 - real_of_int \<bar>complexity struct1 - complexity struct2\<bar>
                 / real_of_int (max (max (complexity struct1) (complexity struct2)) 1),
             1 - real_of_int \<bar>nestingDepth struct1 - nestingDepth struct2\<bar>
                 / real_of_int (max (max (nestingDepth struct1) (nestingDepth struct2)) 1),
             1 - real_of_int \<bar>functionCount struct1 - functionCount struct2\<bar>
                 / real_of_int (max (max (functionCount struct1) (functionCount struct2)) 1),
             1 - real_of_int \<bar>classCount struct1 - classCount struct2\<bar>
                 / real_of_int (max (max (classCount struct1) (classCount struct2)) 1)]
      in foldl (+) 0 similarities / real (length similarities))"

definition calculateBiasScore :: "CodeRepresentation \<Rightarrow> CodeRepresentation \<Rightarrow> real" where
  "calculateBiasScore original masked =
     (let structuralSimilarity = calculateStructuralSimilarity original masked;
          score = 1.0 - structuralSimilarity
      in max 0 (min 1 score))"

definition detectBias :: "CodeRepresentation \<Rightarrow> real" where
  "detectBias code = (let maskedResults = maskTextualFeatures code
                      in calculateBiasScore code maskedResults)"

text \<open>
  The per-metric similarity in the words of the design: \<open>1 - |a - b| / max(a, b, 1)\<close>.
\<close>

definition metricSimilarity :: "int \<Rightarrow> int \<Rightarrow> real" where
  "metricSimilarity a b = 1 - real_of_int \<bar>a - b\<bar> / real_of_int (max (max a b) 1)"

section \<open>Semantic augmenter (core/SemanticAugmenter.ts)\<close>

text \<open>
  Both embedding calls catch every error and return the empty vector; a response without
  a first datum gives the empty vector as well.
\<close>

definition embedding_or_empty :: "platform \<Rightarrow> string \<Rightarrow> real list" where
  "embedding_or_empty env input =
     (case embeddings_create env input of
        None \<Rightarrow> []
      | Some None \<Rightarrow> []
      | Some (Some v) \<Rightarrow> v)"

definition encode :: "platform \<Rightarrow> string \<Rightarrow> real list" where
  "encode env codeContent = embedding_or_empty env codeContent"

definition or_unknown :: "string \<Rightarrow> string" where
  "or_unknown s = (if s = [] then ''unknown'' else s)"

definition createSemanticRepresentation :: "CodeRepresentation \<Rightarrow> string" where
  "createSemanticRepresentation code =
     (let struct = structuralFeatures code
      in trim ([newline]
         @ ''    Computational structure: '' @ number_toString (complexity struct)
         @ '' complexity, '' @ number_toString (nestingDepth struct) @ '' nesting levels'' @ [newline]
         @ ''    Components: '' @ number_toString (functionCount struct) @ '' functions, ''
         @ number_toString (classCount struct) @ '' classes'' @ [newline]
         @ ''    AST nodes: '' @ number_toString (astNodes struct) @ [newline]
         @ ''    Code patterns: '' @ or_unknown (behaviorPattern (semanticFeatures code)) @ [newline]
         @ ''    Functional signature: '' @ or_unknown (functionalSignature (semanticFeatures code))
         @ [newline] @ ''    ''))"

definition embed :: "platform \<Rightarrow> CodeRepresentation \<Rightarrow> real list" where
  "embed env code = embedding_or_empty env (createSemanticRepresentation code)"

definition semanticPrompt :: "CodeRepresentation \<Rightarrow> string" where
  "semanticPrompt code =
     ''Analyze this code and extract semantic features, ignoring variable names and comments:''
     @ [newline, newline] @ ''CODE:'' @ [newline] @ content code @ [newline, newline]
     @ ''Provide:'' @ [newline]
     @ ''1. Functional signature: What does this code DO functionally (inputs/outputs/transformations)''
     @ [newline]
     @ ''2. Behavior pattern: What computational pattern does it follow (iteration, recursion, filtering, etc.)''
     @ [newline, newline]
     @ ''Focus on FUNCTIONALITY, not naming or documentation.''"

text \<open>\<^verbatim>\<open>line.replace(/^[1-9\.]?\s*/, '')\<close>.\<close>

definition strip_numbering :: "string \<Rightarrow> string" where
  "strip_numbering line =
     (case line of
        [] \<Rightarrow> []
      | c # cs \<Rightarrow> (if c \<in> set ''123456789.'' then dropWhile is_space cs
                   else dropWhile is_space line))"

definition find_line :: "string list \<Rightarrow> string \<Rightarrow> string \<Rightarrow> string \<Rightarrow> string" where
  "find_line lines word marker fallback =
     (case filter (\<lambda>line. js_includes (toLowerCase line) word \<or> js_includes line marker) lines of
        [] \<Rightarrow> fallback
      | line # _ \<Rightarrow> (if strip_numbering line = [] then fallback else strip_numbering line))"

definition extractSemanticFeatures :: "platform \<Rightarrow> CodeRepresentation \<Rightarrow> string \<times> string" where
  "extractSemanticFeatures env code =
     (case chat_create env (semanticPrompt code) of
        None \<Rightarrow> (''Error analyzing function signature'', ''Error analyzing behavior pattern'')
      | Some response \<Rightarrow>
          (let reply = (case response of None \<Rightarrow> [] | Some r \<Rightarrow> r);
               lines = split_char newline reply
           in (find_line lines ''functional'' ''1.'' ''Unknown function signature'',
               find_line lines ''behavior'' ''2.'' ''Unknown behavior pattern'')))"

definition combineEmbeddings :: "real list \<Rightarrow> real list \<Rightarrow> real list" where
  "combineEmbeddings baseEmbedding semanticEmbedding =
     (let maxLength = max (length baseEmbedding) (length semanticEmbedding);
          sWeight = 0.7;
          baseWeight = 0.3
      in map (\<lambda>i. (let base = (if i < length baseEmbedding then baseEmbedding ! i else 0);
                        semantic = (if i < length semanticEmbedding then semanticEmbedding ! i else 0)
                    in (base * baseWeight) + (semantic * sWeight)))
             [0..<maxLength])"

definition augmentRepresentation :: "platform \<Rightarrow> CodeRepresentation \<Rightarrow> CodeRepresentation" where
  "augmentRepresentation env code =
     (let baseEmbedding = encode env (content code);
          semanticEmbedding = embed env code
      in case extractSemanticFeatures env code of
           (signature, pattern) \<Rightarrow>
             code\<lparr>semanticFeatures :=
                    \<lparr>embedding = semanticEmbedding,
                     functionalSignature = signature,
                     behaviorPattern = pattern\<rparr>,
                  augmentedEmbedding := combineEmbeddings baseEmbedding semanticEmbedding\<rparr>)"

section \<open>Reranker score fusion (core/SACLReranker.ts)\<close>

text \<open>
  \<^verbatim>\<open>combineScores\<close> with its local constants.  The textual weight is the local
  \<^verbatim>\<open>textualWeight = 0.2 * biasAdjustment\<close> with
  \<^verbatim>\<open>biasAdjustment = 1.0 - (biasScore * 0.5)\<close>.
\<close>

definition biasAdjustment :: "real \<Rightarrow> real" where
  "biasAdjustment bias = 1.0 - (bias * 0.5)"

definition textualWeight :: "real \<Rightarrow> real" where
  "textualWeight bias = 0.2 * biasAdjustment bias"

definition semanticWeight :: real where
  "semanticWeight = 0.5"

definition functionalWeight :: real where
  "functionalWeight = 0.3"

definition combineScores :: "real \<Rightarrow> real \<Rightarrow> real \<Rightarrow> real \<Rightarrow> real" where
  "combineScores textualSim semanticSim functionalSim bias =
     (let normalizedWeights = textualWeight bias + semanticWeight + functionalWeight
      in ((textualSim * textualWeight bias) +
          (semanticSim * semanticWeight) +
          (functionalSim * functionalWeight)) / normalizedWeights)"

section \<open>Graph client (graphiti/GraphitiClient.ts)\<close>

text \<open>
  In this version of the client every call to Graphiti is commented out: a write logs a line
  and returns, a read returns synthetic data.  The state of the client is modelled as the
  list of write requests it has received, oldest first; no read consults it.
\<close>

record relationship_details =
  d_symbols :: "string list option"
  d_lineNumber :: "nat option"
  d_statement :: "string option"
  d_weight :: "real option"

datatype graph_request =
    StoreCodeRepresentation CodeRepresentation
  | StoreRelationship string string RelationshipType relationship_details
  | DeleteFileRelationships string
  | ClearNamespace

type_synonym graphiti = "graph_request list"

definition storeCodeRepresentation :: "graphiti \<Rightarrow> CodeRepresentation \<Rightarrow> graphiti" where
  "storeCodeRepresentation g code = g @ [StoreCodeRepresentation code]"

definition storeRelationship ::
  "graphiti \<Rightarrow> string \<Rightarrow> string \<Rightarrow> RelationshipType \<Rightarrow> relationship_details \<Rightarrow> graphiti" where
  "storeRelationship g src dst ty details = g @ [StoreRelationship src dst ty details]"

definition deleteFileRelationships :: "graphiti \<Rightarrow> string \<Rightarrow> graphiti" where
  "deleteFileRelationships g path = g @ [DeleteFileRelationships path]"

definition clearNamespace :: "graphiti \<Rightarrow> graphiti" where
  "clearNamespace g = g @ [ClearNamespace]"

text \<open>
  \<^verbatim>\<open>storeFileRelationships\<close>: one \<^verbatim>\<open>storeRelationship\<close> per relation, imports first, then
  exports, calls, inheritance and dependencies.  An \<^verbatim>\<open>ExportRelation\<close> has no \<^verbatim>\<open>to\<close>,
  so the target of an export edge is always \<^verbatim>\<open>'external'\<close>.
\<close>

definition storeFileRelationships :: "graphiti \<Rightarrow> string \<Rightarrow> CodeRelationships \<Rightarrow> graphiti" where
  "storeFileRelationships g path rels =
     (let g1 = foldl (\<lambda>acc importRel.
                  storeRelationship acc (import_from importRel) (import_to importRel) imports_t
                    \<lparr>d_symbols = Some (symbols importRel),
                     d_lineNumber = import_lineNumber importRel,
                     d_statement = Some (import_statement importRel),
                     d_weight = None\<rparr>) g (rel_imports rels);
          g2 = foldl (\<lambda>acc exportRel.
                  storeRelationship acc (export_from exportRel) ''external'' exports_t
                    \<lparr>d_symbols = Some [export_symbol exportRel],
                     d_lineNumber = export_lineNumber exportRel,
                     d_statement = Some (export_statement exportRel),
                     d_weight = None\<rparr>) g1 (rel_exports rels);
          g3 = foldl (\<lambda>acc callRel.
                  storeRelationship acc (call_from callRel) (call_to callRel) calls_t
                    \<lparr>d_symbols = Some (case call_object callRel of
                                         None \<Rightarrow> []
                                       | Some ob \<Rightarrow> (if ob = [] then [] else [ob])),
                     d_lineNumber = call_lineNumber callRel,
                     d_statement = None,
                     d_weight = None\<rparr>) g2 (functionCalls rels);
          g4 = foldl (\<lambda>acc inheritRel.
                  storeRelationship acc (inherit_from inheritRel) (inherit_to inheritRel)
                    (if inherit_type inheritRel = extends_type then extends_t else implements_t)
                    \<lparr>d_symbols = None,
                     d_lineNumber = inherit_lineNumber inheritRel,
                     d_statement = None,
                     d_weight = None\<rparr>) g3 (classInheritance rels);
          g5 = foldl (\<lambda>acc depRel.
                  storeRelationship acc (dep_from depRel) (dep_to depRel) depends_on_t
                    \<lparr>d_symbols = Some (usage depRel),
                     d_lineNumber = None,
                     d_statement = None,
                     d_weight = Some (if dependencyType depRel = local_dep then 0.8 else 0.4)\<rparr>)
                  g4 (dependencies rels)
      in g5)"

text \<open>
  \<^verbatim>\<open>createMockSearchResults\<close>.  The limit is a number, here a real: it need not be whole
  or positive.  The loop \<^verbatim>\<open>for (let i = 0; i < Math.min(limit, 5); i++)\<close> runs for
  \<open>i = 0, 1, ...\<close> as long as \<open>i\<close> is below \<open>min(limit, 5)\<close>, so it ends at \<open>i = 5\<close> at the
  latest.  The two embeddings of result \<open>i\<close> take 384 random numbers each, in the order
  the object literal evaluates them.
\<close>

definition createMockSearchResult :: "platform \<Rightarrow> string \<Rightarrow> nat \<Rightarrow> CodeRepresentation" where
  "createMockSearchResult env query i =
     \<lparr>filePath = ''src/example'' @ decimal (i + 1) @ ''.py'',
      content = ''def example_function_'' @ decimal (i + 1) @ ''():'' @ [newline]
                @ ''    # Mock implementation for '' @ query @ [newline]
                @ ''    return '' @ [CHR 0x22] @ ''result'' @ [CHR 0x22],
      textualFeatures =
        \<lparr>docstrings = [''Function for '' @ query],
         comments = [''Implementation of '' @ query],
         identifierNames = [''example_function_'' @ decimal (i + 1), ''result''],
         variableNames = [''result'']\<rparr>,
      structuralFeatures =
        \<lparr>astNodes = 15 + int i * 3,
         complexity = 2 + int i,
         nestingDepth = 1,
         functionCount = 1,
         classCount = 0\<rparr>,
      semanticFeatures =
        \<lparr>embedding = map (\<lambda>k. random env (768 * i + k) - 0.5) [0..<384],
         functionalSignature = ''Processes '' @ query @ '' and returns result'',
         behaviorPattern = ''Linear processing with '' @ query @ '' operation''\<rparr>,
      relationships = None,
      biasScore = 0.3 + (real i * 0.1),
      augmentedEmbedding = map (\<lambda>k. random env (768 * i + 384 + k) - 0.5) [0..<384],
      lastModified = now env\<rparr>"

definition createMockSearchResults :: "platform \<Rightarrow> string \<Rightarrow> real \<Rightarrow> CodeRepresentation list" where
  "createMockSearchResults env query limit =
     map (createMockSearchResult env query) (takeWhile (\<lambda>i. real i < min limit 5) [0..<5])"

definition searchCode :: "platform \<Rightarrow> graphiti \<Rightarrow> string \<Rightarrow> real \<Rightarrow> CodeRepresentation list" where
  "searchCode env g query limit = createMockSearchResults env query limit"

text \<open>\<^verbatim>\<open>xs.pop() || d\<close> on a freshly split string: the last piece, or \<open>d\<close> when it is empty.\<close>

definition pop_or :: "string list \<Rightarrow> string \<Rightarrow> string" where
  "pop_or xs d = (if xs = [] then d else if last xs = [] then d else last xs)"

definition createMockRelatedComponents ::
  "string \<Rightarrow> RelationshipTraversalConfig \<Rightarrow> RelatedComponent list" where
  "createMockRelatedComponents path config =
     (let fileName = pop_or (split_char CHR ''/'' path) [];
          mock1 = (if js_includes fileName ''Service'' then
                     [\<lparr>rc_filePath = replace_first path ''Service'' ''Controller'',
                       componentName = replace_first fileName ''Service'' ''Controller'',
                       componentType = file_c,
                       relationshipType = calls_t,
                       relationshipDescription = ''Controller uses this service'',
                       relevanceScore = 0.9,
                       distance = 1,
                       snippet = Some ''class Controller { constructor(private service: Service) {} }''\<rparr>]
                   else []);
          mock2 = (if js_includes fileName ''Controller'' then
                     [\<lparr>rc_filePath = replace_first path ''Controller'' ''Service'',
                       componentName = replace_first fileName ''Controller'' ''Service'',
                       componentType = file_c,
                       relationshipType = imports_t,
                       relationshipDescription = ''Service imported by controller'',
                       relevanceScore = 0.95,
                       distance = 1,
                       snippet = Some (''import { Service } from '' @ [CHR 0x22] @ ''./Service''
                                       @ [CHR 0x22] @ '';'')\<rparr>]
                   else []);
          mock3 = [\<lparr>rc_filePath = replace_ext_test path,
                     componentName = replace_ext_test fileName,
                     componentType = file_c,
                     relationshipType = depends_on_t,
                     relationshipDescription = ''Test file for this component'',
                     relevanceScore = 0.7,
                     distance = 1,
                     snippet = None\<rparr>];
          mockComponents = mock1 @ mock2 @ mock3
      in take 5 (filter (\<lambda>comp. relevanceScore comp \<ge> minRelevanceScore config
                                \<and> distance comp \<le> maxDepth config) mockComponents))"

definition defaultConfig :: RelationshipTraversalConfig where
  "defaultConfig =
     \<lparr>maxDepth = 3,
      relationshipTypes = [imports_t, exports_t, calls_t, extends_t, implements_t],
      minRelevanceScore = 0.3,
      includeReverse = True,
      weightings = DEFAULT_RELATIONSHIP_WEIGHTS\<rparr>"

text \<open>The object spread \<^verbatim>\<open>{ ...defaultConfig, ...config }\<close>.\<close>

definition spreadConfig ::
  "RelationshipTraversalConfig \<Rightarrow> PartialTraversalConfig \<Rightarrow> RelationshipTraversalConfig" where
  "spreadConfig d c =
     \<lparr>maxDepth = (case p_maxDepth c of None \<Rightarrow> maxDepth d | Some v \<Rightarrow> v),
      relationshipTypes = (case p_relationshipTypes c of None \<Rightarrow> relationshipTypes d | Some v \<Rightarrow> v),
      minRelevanceScore = (case p_minRelevanceScore c of None \<Rightarrow> minRelevanceScore d | Some v \<Rightarrow> v),
      includeReverse = (case p_includeReverse c of None \<Rightarrow> includeReverse d | Some v \<Rightarrow> v),
      weightings = (case p_weightings c of None \<Rightarrow> weightings d | Some v \<Rightarrow> v)\<rparr>"

definition getRelatedComponents ::
  "graphiti \<Rightarrow> string \<Rightarrow> PartialTraversalConfig \<Rightarrow> RelatedComponent list" where
  "getRelatedComponents g path config =
     (let traversalConfig = spreadConfig defaultConfig config
      in createMockRelatedComponents path traversalConfig)"

text \<open>
  \<^verbatim>\<open>traverseRelationships\<close>; of the statistics, the two counters are modelled
  (\<^verbatim>\<open>maxDepthReached\<close> and \<^verbatim>\<open>processingTime\<close> are left out).
\<close>

definition traverseRelationships ::
  "graphiti \<Rightarrow> string \<Rightarrow> RelationshipType list \<Rightarrow> int \<Rightarrow> GraphTraversalResult" where
  "traverseRelationships g startFile types depth =
     (let comps = getRelatedComponents g startFile
                    (noConfig\<lparr>p_maxDepth := Some depth, p_relationshipTypes := Some types\<rparr>);
          graph =
            \<lparr>nodes =
               \<lparr>node_id = startFile,
                node_label = pop_or (split_char CHR ''/'' startFile) startFile,
                node_type = file_c,
                node_metadata = \<lparr>meta_biasScore = None, meta_complexity = Some 5, meta_size = None\<rparr>\<rparr>
               # map (\<lambda>comp.
                    \<lparr>node_id = rc_filePath comp,
                     node_label = componentName comp,
                     node_type = componentType comp,
                     node_metadata = \<lparr>meta_biasScore = Some 0.4, meta_complexity = None,
                                      meta_size = None\<rparr>\<rparr>) comps,
             edges = map (\<lambda>comp.
                    \<lparr>edge_from = startFile,
                     edge_to = rc_filePath comp,
                     edge_type = relationshipType comp,
                     edge_weight = relevanceScore comp,
                     edge_label = relationshipDescription comp,
                     edge_bidirectional = Some False\<rparr>) comps,
             primaryNode = startFile,
             graph_maxDepth = depth\<rparr>
      in \<lparr>startNode = startFile,
          relatedComponents = comps,
          relationshipGraph = graph,
          traversalStats = \<lparr>nodesVisited = length comps + 1, edgesTraversed = length comps\<rparr>\<rparr>)"

section \<open>Reranking (core/SACLReranker.ts)\<close>

text \<open>
  Of a retrieval result the snippet and the three scores are modelled; the localization
  regions and the explanation texts are computed from the result after its scores and play
  no part in which results are returned or in what order.
\<close>

record RetrievalResult =
  codeSnippet :: CodeRepresentation
  originalScore :: real
  semanticScore :: real
  biasAdjustedScore :: real

record EnhancedRetrievalResult = RetrievalResult +
  enh_relatedComponents :: "RelatedComponent list"
  enh_relationshipGraph :: RelationshipGraph
  dependencyChain :: "string list"

definition calculateTextualSimilarity :: "CodeRepresentation \<Rightarrow> string \<Rightarrow> real" where
  "calculateTextualSimilarity code query =
     (let queryTokens = split_spaces (toLowerCase query);
          codeText = toLowerCase (join '' '' (docstrings (textualFeatures code)
                                              @ comments (textualFeatures code)
                                              @ identifierNames (textualFeatures code)
                                              @ [content code]));
          matches = length (filter (\<lambda>token. js_includes codeText token) queryTokens)
      in real matches / real (length queryTokens))"

definition semanticRelationships :: "(string \<times> string list) list" where
  "semanticRelationships =
     [(''sort'', [''order'', ''arrange'', ''sequence'']),
      (''search'', [''find'', ''locate'', ''query'', ''filter'']),
      (''transform'', [''convert'', ''change'', ''modify'', ''map'']),
      (''iterate'', [''loop'', ''traverse'', ''process'', ''each'']),
      (''validate'', [''check'', ''verify'', ''ensure'', ''test''])]"

definition findSemanticRelated :: "string \<Rightarrow> string \<Rightarrow> bool" where
  "findSemanticRelated token text =
     list_ex (\<lambda>entry. case entry of
                (key, synonyms) \<Rightarrow>
                  (token = key \<and> list_ex (\<lambda>syn. js_includes text syn) synonyms)
                  \<or> (token \<in> set synonyms \<and> js_includes text key))
             semanticRelationships"

definition semanticSimilarity :: "CodeRepresentation \<Rightarrow> string \<Rightarrow> real" where
  "semanticSimilarity code query =
     (let queryTokens = split_spaces (toLowerCase query);
          semanticContent = toLowerCase (join '' '' [functionalSignature (semanticFeatures code),
                                                     behaviorPattern (semanticFeatures code)]);
          semanticMatches = length (filter (\<lambda>token. js_includes semanticContent token
                                                     \<or> findSemanticRelated token semanticContent)
                                           queryTokens)
      in min 1.0 (real semanticMatches / real (length queryTokens) * 1.2))"

text \<open>
  \<^verbatim>\<open>complexityKeywords[token] || 3\<close>; a token that names a member of
  \<^verbatim>\<open>Object.prototype\<close> is not modelled.
\<close>

definition queryKeywordComplexity :: "string \<Rightarrow> real" where
  "queryKeywordComplexity token =
     (case map_of [(''simple'', 1), (''basic'', 1), (''easy'', 1),
                   (''complex'', 5), (''advanced'', 5), (''sophisticated'', 5),
                   (''algorithm'', 4), (''optimize'', 4), (''efficient'', 4),
                   (''recursive'', 6), (''dynamic'', 5), (''parallel'', 6)] token of
        Some v \<Rightarrow> v
      | None \<Rightarrow> 3)"

definition estimateQueryComplexity :: "string \<Rightarrow> real" where
  "estimateQueryComplexity query =
     (let tokens = split_spaces (toLowerCase query);
          scores = map queryKeywordComplexity tokens
      in foldl (+) 0 scores / real (length scores))"

definition behaviorKeywords :: "string list" where
  "behaviorKeywords = [''iteration'', ''recursion'', ''filtering'', ''mapping'', ''sorting'',
                       ''searching'', ''optimization'', ''validation'', ''transformation'']"

definition scoreBehaviorAlignment :: "string \<Rightarrow> string \<Rightarrow> real" where
  "scoreBehaviorAlignment query pattern =
     (let queryLower = toLowerCase query;
          patternLower = toLowerCase pattern
      in if js_includes patternLower queryLower \<or> js_includes queryLower patternLower then 1.0
         else
           (let queryBehaviors = filter (\<lambda>kw. js_includes queryLower kw) behaviorKeywords;
                patternBehaviors = filter (\<lambda>kw. js_includes patternLower kw) behaviorKeywords;
                overlap = length (filter (\<lambda>qb. qb \<in> set patternBehaviors) queryBehaviors);
                total = max (max (length queryBehaviors) (length patternBehaviors)) 1
            in real overlap / real total))"

definition functionalRelevance :: "CodeRepresentation \<Rightarrow> string \<Rightarrow> real" where
  "functionalRelevance code query =
     (let queryComplexity = estimateQueryComplexity query;
          codeComplexity = real_of_int (complexity (structuralFeatures code));
          complexityScore = 1.0 - \<bar>queryComplexity - codeComplexity\<bar>
                                  / max (max queryComplexity codeComplexity) 1;
          behaviorScore = scoreBehaviorAlignment query (behaviorPattern (semanticFeatures code))
      in (complexityScore * 0.4) + (behaviorScore * 0.6))"

definition scoreResult :: "CodeRepresentation \<Rightarrow> string \<Rightarrow> RetrievalResult" where
  "scoreResult result query =
     (let textualSim = calculateTextualSimilarity result query;
          semanticSim = semanticSimilarity result query;
          functionalSim = functionalRelevance result query;
          finalScore = combineScores textualSim semanticSim functionalSim (biasScore result)
      in \<lparr>codeSnippet = result,
          originalScore = textualSim,
          semanticScore = semanticSim,
          biasAdjustedScore = finalScore\<rparr>)"

text \<open>
  \<^verbatim>\<open>sort((a, b) => b.biasAdjustedScore - a.biasAdjustedScore)\<close> is a stable sort by
  descending score, and so is \<^const>\<open>sort_key\<close> on the negated score.
\<close>

definition rerank :: "CodeRepresentation list \<Rightarrow> string \<Rightarrow> real \<Rightarrow> RetrievalResult list" where
  "rerank initialResults query topK =
     (let scoredResults = map (\<lambda>result. scoreResult result query) initialResults
      in slice0 (sort_key (\<lambda>r. - biasAdjustedScore r) scoredResults) topK)"

definition buildDependencyChain :: "string \<Rightarrow> RelatedComponent list \<Rightarrow> string list" where
  "buildDependencyChain path comps =
     path # map rc_filePath
              (take 3 (sort_key (\<lambda>c. - relevanceScore c)
                         (filter (\<lambda>c. relationshipType c \<in> set [imports_t, depends_on_t]) comps)))"

definition createRelationshipGraph :: "string \<Rightarrow> RelatedComponent list \<Rightarrow> RelationshipGraph" where
  "createRelationshipGraph path comps =
     \<lparr>nodes =
        \<lparr>node_id = path,
         node_label = pop_or (split_char CHR ''/'' path) path,
         node_type = file_c,
         node_metadata = \<lparr>meta_biasScore = None, meta_complexity = Some 5, meta_size = None\<rparr>\<rparr>
        # map (\<lambda>comp.
             \<lparr>node_id = rc_filePath comp,
              node_label = componentName comp,
              node_type = componentType comp,
              node_metadata = \<lparr>meta_biasScore = Some 0.4, meta_complexity = None,
                               meta_size = None\<rparr>\<rparr>) (take 5 comps),
      edges = map (\<lambda>comp.
             \<lparr>edge_from = path,
              edge_to = rc_filePath comp,
              edge_type = relationshipType comp,
              edge_weight = relevanceScore comp,
              edge_label = relationshipDescription comp,
              edge_bidirectional = Some False\<rparr>) (take 5 comps),
      primaryNode = path,
      graph_maxDepth = foldr max (map distance comps) 1\<rparr>"

text \<open>
  \<^verbatim>\<open>rerankWithContext\<close> of a reranker that has a graph client, as the one the processor
  builds always has.
\<close>

definition rerankWithContext ::
  "graphiti \<Rightarrow> CodeRepresentation list \<Rightarrow> string \<Rightarrow> real \<Rightarrow> EnhancedRetrievalResult list" where
  "rerankWithContext g initialResults query topK =
     (let enhancedResults =
            map (\<lambda>result.
                   (let comps = getRelatedComponents g (filePath result) (noConfig\<lparr>p_maxDepth := Some 2\<rparr>)
                    in RetrievalResult.extend (scoreResult result query)
                         \<lparr>enh_relatedComponents = comps,
                          enh_relationshipGraph = createRelationshipGraph (filePath result) comps,
                          dependencyChain = buildDependencyChain (filePath result) comps\<rparr>))
                initialResults
      in slice0 (sort_key (\<lambda>r. - biasAdjustedScore r) enhancedResults) topK)"

section \<open>Orchestrator (core/SACLProcessor.ts)\<close>

text \<open>
  The state of the processor: its configuration, its cache (a \<^verbatim>\<open>Map\<close> from file path to
  representation) and its graph client.
\<close>

record processor =
  config :: SACLConfig
  cache :: "string \<Rightarrow> CodeRepresentation option"
  graph :: graphiti

datatype changeType = created | modified | deleted | other_change string

record UpdateResponse =
  success :: bool
  message :: string

text \<open>\<^verbatim>\<open>s.replace(/\\/g, '/')\<close>: every backslash becomes a slash.\<close>

definition slashes :: "string \<Rightarrow> string" where
  "slashes s = map (\<lambda>c. if c = CHR 0x5C then CHR ''/'' else c) s"

definition validateFilePath :: "SACLConfig \<Rightarrow> string \<Rightarrow> bool" where
  "validateFilePath cfg path =
     (let normalizedRepoPath = slashes (repositoryPath cfg);
          normalizedFilePath = slashes path
      in startsWith normalizedFilePath normalizedRepoPath
         \<or> startsWith normalizedFilePath ''./''
         \<or> \<not> startsWith normalizedFilePath ''/'')"

text \<open>
  \<^verbatim>\<open>x.toFixed(3)\<close>: \<open>x\<close> rounded to the nearest thousandth (the larger one on a tie),
  printed with three decimals.
\<close>

definition toFixed3 :: "real \<Rightarrow> string" where
  "toFixed3 x =
     (let n = nat \<lfloor>\<bar>x\<bar> * 1000 + 1 / 2\<rfloor>;
          fraction = decimal (n mod 1000)
      in (if x < 0 then ''-'' else []) @ decimal (n div 1000) @ ''.''
         @ replicate (3 - length fraction) CHR ''0'' @ fraction)"

text \<open>
  \<^verbatim>\<open>processFile\<close>: analysis, bias detection, augmentation, then the relationships go to
  the graph client.  Any exception makes the result \<^verbatim>\<open>null\<close>.
\<close>

definition processFile :: "platform \<Rightarrow> processor \<Rightarrow> string \<Rightarrow> CodeRepresentation option \<times> processor" where
  "processFile env st path =
     (case analyzeFile env path of
        None \<Rightarrow> (None, st)
      | Some codeRep \<Rightarrow>
          (let bias = detectBias codeRep;
               augmented = augmentRepresentation env (codeRep\<lparr>biasScore := bias\<rparr>)
           in (Some augmented,
               (case relationships augmented of
                  None \<Rightarrow> st
                | Some rels \<Rightarrow> st\<lparr>graph := storeFileRelationships (graph st) path rels\<rparr>))))"

definition updateFile :: "platform \<Rightarrow> processor \<Rightarrow> string \<Rightarrow> changeType \<Rightarrow> UpdateResponse \<times> processor" where
  "updateFile env st path change =
     (if \<not> validateFilePath (config st) path then
        (\<lparr>success = False, message = ''File path '' @ path @ '' is outside repository''\<rparr>, st)
      else
        (case change of
           deleted \<Rightarrow>
             (\<lparr>success = True,
               message = ''File '' @ path @ '' removed from cache and knowledge graph''\<rparr>,
              st\<lparr>cache := (cache st)(path := None),
                 graph := deleteFileRelationships (graph st) path\<rparr>)
         | other_change name \<Rightarrow>
             (\<lparr>success = False, message = ''Unknown change type: '' @ name\<rparr>, st)
         | _ \<Rightarrow>
             (case processFile env st path of
                (Some processed, st1) \<Rightarrow>
                  (let st2 = st1\<lparr>graph := storeCodeRepresentation (graph st1) processed\<rparr>;
                       st3 = (if cacheEnabled (config st2)
                              then st2\<lparr>cache := (cache st2)(path \<mapsto> processed)\<rparr>
                              else st2)
                   in (\<lparr>success = True,
                        message = ''File '' @ path @ '' processed successfully. Bias score: ''
                                  @ toFixed3 (biasScore processed)\<rparr>, st3))
              | (None, st1) \<Rightarrow>
                  (\<lparr>success = False, message = ''Failed to process file '' @ path\<rparr>, st1))))"




text \<open>
  \<^verbatim>\<open>maxResults || this.config.maxResults\<close>: an absent or zero \<^verbatim>\<open>maxResults\<close> gives the
  configured limit.
\<close>

definition queryLimit :: "processor \<Rightarrow> real option \<Rightarrow> real" where
  "queryLimit st requested =
     (case requested of
        None \<Rightarrow> maxResults (config st)
      | Some n \<Rightarrow> (if n = 0 then maxResults (config st) else n))"

definition queryCode :: "platform \<Rightarrow> processor \<Rightarrow> string \<Rightarrow> real option \<Rightarrow> RetrievalResult list" where
  "queryCode env st query requested =
     (let limit = queryLimit st requested;
          initialResults = searchCode env (graph st) query (limit * 2)
      in if length initialResults = 0 then []
         else rerank initialResults query limit)"

definition queryCodeWithContext ::
  "platform \<Rightarrow> processor \<Rightarrow> string \<Rightarrow> real option \<Rightarrow> EnhancedRetrievalResult list" where
  "queryCodeWithContext env st query requested =
     (let limit = queryLimit st requested;
          initialResults = searchCode env (graph st) query (limit * 2)
      in if length initialResults = 0 then []
         else rerankWithContext (graph st) initialResults query limit)"

section \<open>Notions used in the statements\<close>

text \<open>
  The import declarations of a syntax tree, in the order the traversal meets them: the
  specifier, the bindings and the start line of each.
\<close>

fun import_nodes :: "node \<Rightarrow> (string \<times> import_specifier list \<times> nat option) list" where
  "import_nodes (Node d l ch) =
     (case d of ImportDeclaration importPath specs \<Rightarrow> [(importPath, specs, l)] | _ \<Rightarrow> [])
     @ concat (map import_nodes ch)"

text \<open>
  What a component the graph client returns for a start file can be: its relationship
  type, its relevance score, its path and its name.  The path and the name are made from
  the path of the start file and from its last segment.
\<close>

definition derived_components :: "string \<Rightarrow> (RelationshipType \<times> real \<times> string \<times> string) set" where
  "derived_components startFile =
     {(calls_t, 0.9, replace_first startFile ''Service'' ''Controller'',
       replace_first (pop_or (split_char CHR ''/'' startFile) []) ''Service'' ''Controller''),
      (imports_t, 0.95, replace_first startFile ''Controller'' ''Service'',
       replace_first (pop_or (split_char CHR ''/'' startFile) []) ''Controller'' ''Service''),
      (depends_on_t, 0.7, replace_ext_test startFile,
       replace_ext_test (pop_or (split_char CHR ''/'' startFile) []))}"

subsection \<open>A small repository\<close>

text \<open>
  The repository \<^verbatim>\<open>/workspace\<close> holds \<^verbatim>\<open>a.js\<close> with the single line
  \<^verbatim>\<open>import { foo } from "./bar"\<close>, the Python file \<^verbatim>\<open>m.py\<close> with the line \<^verbatim>\<open>x = 1\<close>,
  and \<^verbatim>\<open>broken.js\<close> with the text \<^verbatim>\<open>function (\<close>, which is not a program.  The parser
  returns for the first the one import declaration, on line 1, with its specifier and its
  source below it, and throws on every other text; the default import of
  \<^verbatim>\<open>@babel/traverse\<close> is the function; glob finds \<^verbatim>\<open>a.js\<close> for the \<^verbatim>\<open>.js\<close> pattern; the
  oracle is unavailable.
\<close>

definition scenario_source :: string where
  "scenario_source = ''import { foo } from '' @ [CHR 0x22] @ ''./bar'' @ [CHR 0x22]"

definition scenario_body :: "node list" where
  "scenario_body =
     [Node (ImportDeclaration ''./bar'' [ImportSpecifier (Some ''foo'')]) (Some 1)
        [Node OtherNode (Some 1) [Node OtherNode (Some 1) [], Node OtherNode (Some 1) []],
         Node OtherNode (Some 1) []]]"

definition scenario_platform :: platform where
  "scenario_platform =
     \<lparr>readFile = (\<lambda>p. if p = ''/workspace/a.js'' then Some scenario_source
                       else if p = ''/workspace/m.py'' then Some ''x = 1''
                       else if p = ''/workspace/broken.js'' then Some ''function (''
                       else None),
      parse = (\<lambda>t. if t = scenario_source then Inr scenario_body else Inl SyntaxError),
      traverse_callable = True,
      cwd = ''/workspace'',
      now = 0,
      random = (\<lambda>_. 0),
      embeddings_create = (\<lambda>_. None),
      chat_create = (\<lambda>_. None),
      glob = (\<lambda>pattern. if pattern = ''/workspace/**/*.js'' then Some [''/workspace/a.js'']
                         else Some [])\<rparr>"

text \<open>
  A program in which a call stands between two imports:
  \<^verbatim>\<open>import a from "./a"\<close>, \<^verbatim>\<open>init()\<close>, \<^verbatim>\<open>import b from "./b"\<close>, one statement per line.
\<close>

definition call_between_imports :: "node list" where
  "call_between_imports =
     [Node (ImportDeclaration ''./a'' [ImportDefaultSpecifier ''a'']) (Some 1)
        [Node OtherNode (Some 1) [Node OtherNode (Some 1) []], Node OtherNode (Some 1) []],
      Node OtherNode (Some 2)
        [Node (CallExpression (Identifier ''init'')) (Some 2) [Node OtherNode (Some 2) []]],
      Node (ImportDeclaration ''./b'' [ImportDefaultSpecifier ''b'']) (Some 3)
        [Node OtherNode (Some 3) [Node OtherNode (Some 3) []], Node OtherNode (Some 3) []]]"

definition workspace_config :: SACLConfig where
  "workspace_config =
     \<lparr>repositoryPath = ''/workspace'', namespace = ''sacl'', llmModel = ''gpt-4'',
      embeddingModel = ''text-embedding-3-small'', biasThreshold = 0.5, maxResults = 10,
      cacheEnabled = True\<rparr>"

definition fresh_processor :: processor where
  "fresh_processor = \<lparr>config = workspace_config, cache = Map.empty, graph = []\<rparr>"

text \<open>The chain \<open>A \<rightarrow> B \<rightarrow> C \<rightarrow> D\<close> of import edges with weight 1, as stored in the client.\<close>

definition unit_weight_edge :: relationship_details where
  "unit_weight_edge = \<lparr>d_symbols = None, d_lineNumber = None, d_statement = None, d_weight = Some 1\<rparr>"

text \<open>The one component the client returns for \<^verbatim>\<open>/repo/A.ts\<close>.\<close>

definition test_file_component :: RelatedComponent where
  "test_file_component =
     \<lparr>rc_filePath = ''/repo/A.test.ts'', componentName = ''A.test.ts'', componentType = file_c,
      relationshipType = depends_on_t,
      relationshipDescription = ''Test file for this component'',
      relevanceScore = 0.7, distance = 1, snippet = None\<rparr>"

definition chain_graph :: graphiti where
  "chain_graph =
     storeRelationship
       (storeRelationship
          (storeRelationship [] ''/repo/A.ts'' ''/repo/B.ts'' imports_t unit_weight_edge)
          ''/repo/B.ts'' ''/repo/C.ts'' imports_t unit_weight_edge)
       ''/repo/C.ts'' ''/repo/D.ts'' imports_t unit_weight_edge"

section \<open>Verified properties\<close>

subsection \<open>Bias detector\<close>

lemma maskTextualFeatures_structural:
  "structuralFeatures (maskTextualFeatures code) = structuralFeatures code"
  by (simp add: maskTextualFeatures_def)

lemma calculateStructuralSimilarity_same:
  "structuralFeatures c2 = structuralFeatures c1 \<Longrightarrow> calculateStructuralSimilarity c1 c2 = 1"
  by (simp add: calculateStructuralSimilarity_def Let_def)

lemma calculateStructuralSimilarity_average:
  "calculateStructuralSimilarity c1 c2 =
     (metricSimilarity (complexity (structuralFeatures c1)) (complexity (structuralFeatures c2))
      + metricSimilarity (nestingDepth (structuralFeatures c1)) (nestingDepth (structuralFeatures c2))
      + metricSimilarity (functionCount (structuralFeatures c1)) (functionCount (structuralFeatures c2))
      + metricSimilarity (classCount (structuralFeatures c1)) (classCount (structuralFeatures c2))) / 4"
  by (simp add: calculateStructuralSimilarity_def metricSimilarity_def Let_def)

lemma detectBias_unfold:
  "detectBias code =
     max 0 (min 1 (1 - calculateStructuralSimilarity code (maskTextualFeatures code)))"
  by (simp add: detectBias_def calculateBiasScore_def Let_def)

text \<open>
  Claim C1.  For every code representation, \<^verbatim>\<open>detectBias\<close> is \<^verbatim>\<open>calculateBiasScore\<close> of the
  representation and its masked copy.  For every pair of representations,
  \<^verbatim>\<open>calculateStructuralSimilarity\<close> is the average of the four per-metric similarities
  \<open>1 - |a - b| / max(a, b, 1)\<close> of complexity, nesting depth, function count and class count,
  and \<^verbatim>\<open>calculateBiasScore\<close> is one minus that average, clamped to \<open>[0, 1]\<close>; for two
  representations with the complexities 4 and 1, the same nesting depth, the function
  counts 1 and 3 and no class, the bias score is \<open>1 - (1/4 + 1 + 1/3 + 1) / 4 = 17/48\<close>.
  The masked copy has no docstrings and no comments, every identifier name is the
  placeholder \<^verbatim>\<open>masked_id\<close> and every variable name the placeholder \<^verbatim>\<open>var_x\<close>, and its
  structural features are those of the original; so the score lies in \<open>[0, 1]\<close> and masking
  decreases no structural feature.
\<close>

theorem detectBias_algorithm:
  "detectBias code = calculateBiasScore code (maskTextualFeatures code)
   \<and> calculateStructuralSimilarity original masked =
       (metricSimilarity (complexity (structuralFeatures original))
                         (complexity (structuralFeatures masked))
        + metricSimilarity (nestingDepth (structuralFeatures original))
                           (nestingDepth (structuralFeatures masked))
        + metricSimilarity (functionCount (structuralFeatures original))
                           (functionCount (structuralFeatures masked))
        + metricSimilarity (classCount (structuralFeatures original))
                           (classCount (structuralFeatures masked))) / 4
   \<and> calculateBiasScore original masked =
       max 0 (min 1 (1 - calculateStructuralSimilarity original masked))
   \<and> metricSimilarity a b = 1 - real_of_int \<bar>a - b\<bar> / real_of_int (max (max a b) 1)
   \<and> 0 \<le> calculateBiasScore original masked \<and> calculateBiasScore original masked \<le> 1
   \<and> calculateBiasScore
        (code\<lparr>structuralFeatures := \<lparr>astNodes = 10, complexity = 4, nestingDepth = 2,
                                      functionCount = 1, classCount = 0\<rparr>\<rparr>)
        (code\<lparr>structuralFeatures := \<lparr>astNodes = 10, complexity = 1, nestingDepth = 2,
                                      functionCount = 3, classCount = 0\<rparr>\<rparr>) = 17 / 48
   \<and> detectBias code =
     max 0 (min 1 (1 -
       (metricSimilarity (complexity (structuralFeatures code))
                         (complexity (structuralFeatures (maskTextualFeatures code)))
        + metricSimilarity (nestingDepth (structuralFeatures code))
                         (nestingDepth (structuralFeatures (maskTextualFeatures code)))
        + metricSimilarity (functionCount (structuralFeatures code))
                         (functionCount (structuralFeatures (maskTextualFeatures code)))
        + metricSimilarity (classCount (structuralFeatures code))
                         (classCount (structuralFeatures (maskTextualFeatures code)))) / 4))
   \<and> 0 \<le> detectBias code \<and> detectBias code \<le> 1
   \<and> docstrings (textualFeatures (maskTextualFeatures code)) = []
   \<and> comments (textualFeatures (maskTextualFeatures code)) = []
   \<and> identifierNames (textualFeatures (maskTextualFeatures code))
       = replicate (length (identifierNames (textualFeatures code))) ''masked_id''
   \<and> variableNames (textualFeatures (maskTextualFeatures code))
       = replicate (length (variableNames (textualFeatures code))) ''var_x''
   \<and> structuralFeatures (maskTextualFeatures code) = structuralFeatures code
   \<and> astNodes (structuralFeatures code) \<le> astNodes (structuralFeatures (maskTextualFeatures code))
   \<and> complexity (structuralFeatures code) \<le> complexity (structuralFeatures (maskTextualFeatures code))
   \<and> nestingDepth (structuralFeatures code) \<le> nestingDepth (structuralFeatures (maskTextualFeatures code))
   \<and> functionCount (structuralFeatures code) \<le> functionCount (structuralFeatures (maskTextualFeatures code))
   \<and> classCount (structuralFeatures code) \<le> classCount (structuralFeatures (maskTextualFeatures code))"
proof -
  have masked: "textualFeatures (maskTextualFeatures code) =
       \<lparr>docstrings = [], comments = [],
        identifierNames = map (\<lambda>_. ''masked_id'') (identifierNames (textualFeatures code)),
        variableNames = map (\<lambda>_. ''var_x'') (variableNames (textualFeatures code))\<rparr>"
    by (simp add: maskTextualFeatures_def)
  have bounds: "0 \<le> detectBias code \<and> detectBias code \<le> 1"
    unfolding detectBias_unfold by simp
  have formula: "detectBias code =
     max 0 (min 1 (1 -
       (metricSimilarity (complexity (structuralFeatures code))
                         (complexity (structuralFeatures (maskTextualFeatures code)))
        + metricSimilarity (nestingDepth (structuralFeatures code))
                         (nestingDepth (structuralFeatures (maskTextualFeatures code)))
        + metricSimilarity (functionCount (structuralFeatures code))
                         (functionCount (structuralFeatures (maskTextualFeatures code)))
        + metricSimilarity (classCount (structuralFeatures code))
                         (classCount (structuralFeatures (maskTextualFeatures code)))) / 4))"
    unfolding detectBias_unfold calculateStructuralSimilarity_average ..
  have call: "detectBias code = calculateBiasScore code (maskTextualFeatures code)"
    by (simp add: detectBias_def)
  have score: "calculateBiasScore original masked =
       max 0 (min 1 (1 - calculateStructuralSimilarity original masked))"
    by (simp add: calculateBiasScore_def)
  have clamp: "0 \<le> calculateBiasScore original masked \<and> calculateBiasScore original masked \<le> 1"
    unfolding score by simp
  have example: "calculateBiasScore
        (code\<lparr>structuralFeatures := \<lparr>astNodes = 10, complexity = 4, nestingDepth = 2,
                                      functionCount = 1, classCount = 0\<rparr>\<rparr>)
        (code\<lparr>structuralFeatures := \<lparr>astNodes = 10, complexity = 1, nestingDepth = 2,
                                      functionCount = 3, classCount = 0\<rparr>\<rparr>) = 17 / 48"
    by (simp add: calculateBiasScore_def calculateStructuralSimilarity_def Let_def)
  have metric: "metricSimilarity a b = 1 - real_of_int \<bar>a - b\<bar> / real_of_int (max (max a b) 1)"
    by (simp add: metricSimilarity_def)
  have texts: "docstrings (textualFeatures (maskTextualFeatures code)) = []
      \<and> comments (textualFeatures (maskTextualFeatures code)) = []
      \<and> identifierNames (textualFeatures (maskTextualFeatures code))
          = replicate (length (identifierNames (textualFeatures code))) ''masked_id''
      \<and> variableNames (textualFeatures (maskTextualFeatures code))
          = replicate (length (variableNames (textualFeatures code))) ''var_x''"
    by (simp add: masked map_replicate_const)
  have kept: "structuralFeatures (maskTextualFeatures code) = structuralFeatures code"
    by (rule maskTextualFeatures_structural)
  have no_less: "astNodes (structuralFeatures code) \<le> astNodes (structuralFeatures (maskTextualFeatures code))
      \<and> complexity (structuralFeatures code) \<le> complexity (structuralFeatures (maskTextualFeatures code))
      \<and> nestingDepth (structuralFeatures code) \<le> nestingDepth (structuralFeatures (maskTextualFeatures code))
      \<and> functionCount (structuralFeatures code) \<le> functionCount (structuralFeatures (maskTextualFeatures code))
      \<and> classCount (structuralFeatures code) \<le> classCount (structuralFeatures (maskTextualFeatures code))"
    by (simp add: kept)
  show ?thesis
    using bounds formula call score clamp example metric texts kept no_less
      calculateStructuralSimilarity_average [of original masked]
    by blast
qed

text \<open>
  Claim C2.  For every code representation \<^verbatim>\<open>detectBias\<close> returns exactly 0: the masked
  copy keeps the structural features of the original, each of the four similarities is 1,
  their average is 1, and the score is \<open>1 - 1 = 0\<close>, whatever the content, the textual
  features and the structure of the input.
\<close>

theorem detectBias_zero:
  "detectBias code = 0
   \<and> calculateStructuralSimilarity code (maskTextualFeatures code) = 1"
  by (simp add: detectBias_unfold calculateStructuralSimilarity_same maskTextualFeatures_structural)

subsection \<open>Score fusion\<close>

lemma textualWeight_linear: "textualWeight b = 0.2 - 0.1 * b"
  by (simp add: textualWeight_def biasAdjustment_def)

text \<open>
  Claim C3.  The combined score is \<open>\<Sum>(score \<times> weight) / \<Sum>(weight)\<close> with the weights
  textual \<open>0.2 \<times> (1 - bias \<times> 0.5)\<close>, semantic \<open>0.5\<close> and functional \<open>0.3\<close>; for a bias
  in \<open>[0, 1]\<close> the sum of the weights is at least \<open>0.9\<close>, so the division is by a
  positive number.  For textual similarity 0.9, semantic similarity 0.5, functional
  similarity 0.5 and bias 0.8 the combined score is
  \<open>(0.9 \<times> 0.12 + 0.5 \<times> 0.5 + 0.5 \<times> 0.3) / 0.92\<close>, which is 0.552 to three decimals.
\<close>

theorem combineScores_formula:
  "combineScores t s f b =
     (t * (0.2 * (1 - b * 0.5)) + s * 0.5 + f * 0.3) / (0.2 * (1 - b * 0.5) + 0.5 + 0.3)
   \<and> textualWeight b = 0.2 * (1 - b * 0.5) \<and> semanticWeight = 0.5 \<and> functionalWeight = 0.3
   \<and> (0 \<le> b \<and> b \<le> 1 \<longrightarrow> 0.9 \<le> textualWeight b + semanticWeight + functionalWeight)
   \<and> combineScores 0.9 0.5 0.5 0.8 = (0.9 * 0.12 + 0.5 * 0.5 + 0.5 * 0.3) / 0.92
   \<and> \<bar>combineScores 0.9 0.5 0.5 0.8 - 0.552\<bar> < 0.0005"
  by (simp add: combineScores_def textualWeight_def biasAdjustment_def semanticWeight_def
        functionalWeight_def Let_def)

theorem combineScores_formula_witness:
  "(0::real) \<le> 0.8 \<and> (0.8::real) \<le> 1
   \<and> 0.9 \<le> textualWeight 0.8 + semanticWeight + functionalWeight
   \<and> combineScores 0.9 0.5 0.5 0.8 = 127 / 230"
  using combineScores_formula [of "0.9" "0.5" "0.5" "0.8"] by simp

text \<open>
  Claim C4.  Whatever the three similarity scores, the textual weight
  \<open>0.2 \<times> (1 - bias \<times> 0.5)\<close> that \<^verbatim>\<open>combineScores\<close> uses never increases when the bias
  increases, and a strictly higher bias gives a strictly lower textual weight; below a bias
  of 10, where the sum of the weights is positive, the share of the textual weight in that
  sum falls strictly as well.
\<close>

theorem textualWeight_monotone:
  "(b1 \<le> b2 \<longrightarrow> textualWeight b2 \<le> textualWeight b1)
   \<and> (b1 < b2 \<longrightarrow> textualWeight b2 < textualWeight b1)
   \<and> (b1 < b2 \<and> b2 < 10 \<longrightarrow>
        textualWeight b2 / (textualWeight b2 + semanticWeight + functionalWeight)
        < textualWeight b1 / (textualWeight b1 + semanticWeight + functionalWeight))
   \<and> combineScores t s f b1 =
        (t * textualWeight b1 + s * semanticWeight + f * functionalWeight)
        / (textualWeight b1 + semanticWeight + functionalWeight)"
proof -
  have share: "textualWeight b2 / (textualWeight b2 + semanticWeight + functionalWeight)
        < textualWeight b1 / (textualWeight b1 + semanticWeight + functionalWeight)"
    if "b1 < b2" "b2 < 10"
  proof -
    have p2: "0 < 1 - 0.1 * b2" and p1: "0 < 1 - 0.1 * b1"
      using that by simp_all
    have e: "(0.2 - 0.1 * x) / (1 - 0.1 * x) = 1 - 0.8 / (1 - 0.1 * x)"
      if "0 < 1 - 0.1 * x" for x :: real
      using that by (simp add: field_simps)
    have "0.8 / (1 - 0.1 * b1) < 0.8 / (1 - 0.1 * b2)"
    proof (rule divide_strict_left_mono)
      show "1 - 0.1 * b2 < 1 - 0.1 * b1" using that by simp
      show "(0::real) < 0.8" by simp
      show "0 < (1 - 0.1 * b1) * (1 - 0.1 * b2)" using p1 p2 by (rule mult_pos_pos)
    qed
    then have "(0.2 - 0.1 * b2) / (1 - 0.1 * b2) < (0.2 - 0.1 * b1) / (1 - 0.1 * b1)"
      using e [OF p1] e [OF p2] by simp
    then show ?thesis
      by (simp add: textualWeight_linear semanticWeight_def functionalWeight_def)
  qed
  show ?thesis
    using share by (simp add: textualWeight_linear combineScores_def Let_def)
qed

theorem textualWeight_monotone_witness:
  "(0.2::real) \<le> 0.8 \<and> textualWeight 0.8 \<le> textualWeight 0.2
   \<and> (0.2::real) < 0.8 \<and> (0.8::real) < 10
   \<and> textualWeight 0.8 < textualWeight 0.2
   \<and> textualWeight 0.8 / (textualWeight 0.8 + semanticWeight + functionalWeight)
        < textualWeight 0.2 / (textualWeight 0.2 + semanticWeight + functionalWeight)"
  using textualWeight_monotone [of "0.2" "0.8"] by simp

subsection \<open>Structural features are never delivered\<close>

text \<open>
  The first node the traversal enters is \<^verbatim>\<open>Program\<close>, which is no function: the visitor
  reaches \<^verbatim>\<open>path.isMethodDefinition()\<close> and throws.  With the parser's exception, the
  exception of a \<^verbatim>\<open>traverse\<close> that is not callable, and the assignment to the constant on
  the heuristic path, every run of \<^verbatim>\<open>extractStructuralFeatures\<close> ends in its \<^verbatim>\<open>catch\<close>
  block, whose assignment throws.  So \<^verbatim>\<open>analyzeFile\<close> returns \<^verbatim>\<open>null\<close> for every
  file, and \<^verbatim>\<open>processFile\<close> returns \<^verbatim>\<open>null\<close> and changes nothing.
\<close>

lemma enter_program: "enter_node Program state = Inl TypeError"
  by (simp add: enter_node_def Let_def split: prod.splits)

lemma count_program: "count_node (program body) (Inr state) = Inl TypeError"
  by (simp add: program_def enter_program)

lemma extractStructuralFeatures_raises:
  "extractStructuralFeatures env src extension = Inl TypeError"
  by (simp add: extractStructuralFeatures_def assign_to_const_def count_program Let_def
        split: sum.splits)

lemma analyzeFile_null: "analyzeFile env path = None"
  by (simp add: analyzeFile_def extractStructuralFeatures_raises Let_def split: option.splits)


subsection \<open>Import targets\<close>

lemma importRelation_fields:
  "import_from (importRelation env src path importPath specs l) = path"
  "import_to (importRelation env src path importPath specs l) = resolveImportPath env importPath path"
  by (simp_all add: importRelation_def split: prod.splits)

lemma visit_node_imports:
  "visit_node env src path parent d l rels = Inr visited \<Longrightarrow>
   rel_imports visited =
     rel_imports rels @ (case d of
                           ImportDeclaration importPath specs \<Rightarrow>
                             [importRelation env src path importPath specs l]
                         | _ \<Rightarrow> [])"
  by (cases d) (auto split: sum.splits)

text \<open>
  Every import relation the traversal adds is the relation of an import declaration of
  the tree.
\<close>

lemma visit_imports_sound:
  "set (rel_imports (snd (visit env src path parent n state)))
     \<subseteq> set (rel_imports (snd state))
        \<union> (\<lambda>(importPath, specs, l). importRelation env src path importPath specs l)
            ` set (import_nodes n)"
proof (induction n arbitrary: parent state)
  case (Node d l ch)
  let ?f = "\<lambda>(importPath, specs, l). importRelation env src path importPath specs l"
  obtain st rels where state: "state = (st, rels)"
    by (cases state)
  have below: "set (rel_imports (snd (fold (visit env src path d) cs acc)))
      \<subseteq> set (rel_imports (snd acc)) \<union> ?f ` set (concat (map import_nodes cs))"
    if "set cs \<subseteq> set ch" for cs acc
    using that
  proof (induction cs arbitrary: acc)
    case Nil
    then show ?case by simp
  next
    case (Cons c cs)
    have one: "set (rel_imports (snd (visit env src path d c acc)))
        \<subseteq> set (rel_imports (snd acc)) \<union> ?f ` set (import_nodes c)"
      using Node.IH [of c d acc] Cons.prems by simp
    have rest: "set (rel_imports (snd (fold (visit env src path d) cs (visit env src path d c acc))))
        \<subseteq> set (rel_imports (snd (visit env src path d c acc)))
           \<union> ?f ` set (concat (map import_nodes cs))"
      using Cons.IH [of "visit env src path d c acc"] Cons.prems by simp
    have "set (rel_imports (snd (fold (visit env src path d) cs (visit env src path d c acc))))
        \<subseteq> set (rel_imports (snd acc)) \<union> ?f ` set (import_nodes c)
           \<union> ?f ` set (concat (map import_nodes cs))"
      using one rest by blast
    then show ?case
      by (simp add: image_Un Un_assoc)
  qed
  show ?case
  proof (cases st)
    case (Some e)
    then show ?thesis by (simp add: state)
  next
    case None
    show ?thesis
    proof (cases "visit_node env src path parent d l rels")
      case (Inl e)
      then show ?thesis by (simp add: state None)
    next
      case (Inr visited)
      have here: "set (rel_imports visited)
          \<subseteq> set (rel_imports rels)
             \<union> ?f ` set (case d of ImportDeclaration importPath specs \<Rightarrow> [(importPath, specs, l)]
                                  | _ \<Rightarrow> [])"
        using visit_node_imports [OF Inr] by (cases d) simp_all
      have "set (rel_imports (snd (fold (visit env src path d) ch (None, visited))))
          \<subseteq> set (rel_imports visited) \<union> ?f ` set (concat (map import_nodes ch))"
        using below [of ch "(None, visited)"] by simp
      then have "set (rel_imports (snd (fold (visit env src path d) ch (None, visited))))
          \<subseteq> set (rel_imports rels)
             \<union> ?f ` set (case d of ImportDeclaration importPath specs \<Rightarrow> [(importPath, specs, l)]
                                  | _ \<Rightarrow> [])
             \<union> ?f ` set (concat (map import_nodes ch))"
        using here by blast
      then show ?thesis
        by (simp add: state None Inr image_Un Un_assoc)
    qed
  qed
qed

lemma extractJavaScriptRelationships_sound:
  assumes "parse env src = Inr body" and "rel_imports rels = []"
    and "r \<in> set (rel_imports (extractJavaScriptRelationships env src path rels))"
  shows "\<exists>(importPath, specs, l) \<in> set (import_nodes (program body)).
           r = importRelation env src path importPath specs l"
proof (cases "traverse_callable env")
  case True
  have "r \<in> set (rel_imports (snd (visit env src path OtherNode (program body) (None, rels))))"
    using assms True by (simp add: extractJavaScriptRelationships_def)
  then have "r \<in> (\<lambda>(importPath, specs, l). importRelation env src path importPath specs l)
                  ` set (import_nodes (program body))"
    using visit_imports_sound [of env src path OtherNode "program body" "(None, rels)"] assms(2)
    by auto
  then show ?thesis
    by auto
next
  case False
  then show ?thesis
    using assms by (simp add: extractJavaScriptRelationships_def)
qed

lemma scenario_dirname: "dirname ''/workspace/a.js'' = ''/workspace''"
  by code_simp

lemma scenario_extname: "extname ''/workspace/a.js'' = ''.js''"
  by code_simp

lemma scenario_normalize:
  "join ''/'' (normalizeSegments False (split_char CHR ''/'' ''/workspace/./bar/'') []) = ''workspace/bar''"
  by code_simp

lemma scenario_resolve: "path_resolve w [''/workspace'', ''./bar''] = ''/workspace/bar''"
  by (simp add: path_resolve_def scenario_normalize)

lemma scenario_startsWith: "startsWith ''./bar'' ''./''"
  by code_simp

lemma scenario_statement: "statement_at scenario_source (Some (Suc 0)) = scenario_source"
  by code_simp

lemma scenario_js: "''.js'' \<in> set jsExtensions"
  by code_simp

lemma scenario_relation:
  "importRelation env scenario_source ''/workspace/a.js'' ''./bar'' [ImportSpecifier (Some ''foo'')]
     (Some (Suc 0))
   = \<lparr>import_from = ''/workspace/a.js'', import_to = ''/workspace/bar'',
      symbols = [''foo''], importType = named_import,
      import_lineNumber = Some (Suc 0), import_statement = scenario_source\<rparr>"
  by (simp add: importRelation_def resolveImportPath_def scenario_startsWith scenario_dirname
        scenario_resolve scenario_statement)

lemma scenario_imports:
  "traverse_callable env \<Longrightarrow> parse env scenario_source = Inr scenario_body \<Longrightarrow>
   rel_imports (extractRelationships env scenario_source ''/workspace/a.js'' ''.js'')
   = [\<lparr>import_from = ''/workspace/a.js'', import_to = ''/workspace/bar'',
       symbols = [''foo''], importType = named_import,
       import_lineNumber = Some 1, import_statement = scenario_source\<rparr>]"
  by (simp add: extractRelationships_def extractJavaScriptRelationships_def scenario_js
        program_def scenario_body_def scenario_relation Let_def)

lemma uncallable_imports:
  "\<not> traverse_callable env \<Longrightarrow>
   rel_imports (extractRelationships env src path extension) = [] \<or> extension \<notin> set jsExtensions"
  by (simp add: extractRelationships_def extractJavaScriptRelationships_def Let_def
        split: sum.splits)

lemma call_between_dirname: "dirname ''/workspace/c.js'' = ''/workspace''"
  by code_simp

lemma call_between_resolve: "path_resolve w [''/workspace'', ''./a''] = ''/workspace/a''"
proof -
  have "join ''/'' (normalizeSegments False (split_char CHR ''/'' ''/workspace/./a/'') []) = ''workspace/a''"
    by code_simp
  then show ?thesis
    by (simp add: path_resolve_def)
qed

lemma call_between_startsWith: "startsWith ''./a'' ''./''"
  by code_simp

lemma call_between_result:
  "parse env src = Inr call_between_imports \<Longrightarrow> traverse_callable env \<Longrightarrow>
   map import_to (rel_imports (extractRelationships env src ''/workspace/c.js'' ''.js''))
     = [''/workspace/a'']
   \<and> functionCalls (extractRelationships env src ''/workspace/c.js'' ''.js'') = []"
  by (simp add: extractRelationships_def extractJavaScriptRelationships_def scenario_js
        program_def call_between_imports_def callRelations_def importRelation_fields
        resolveImportPath_def call_between_startsWith call_between_dirname call_between_resolve
        Let_def)

text \<open>
  Claim C5.  The rule of the claim is the one of the code: \<^verbatim>\<open>resolveImportPath\<close> resolves a
  specifier that starts with \<^verbatim>\<open>./\<close> or \<^verbatim>\<open>../\<close> against the directory of the importing file
  and returns any other specifier as it is, the visitor of import declarations stores the
  relation with that target, and every import relation extracted from a JavaScript or
  TypeScript file is the relation of an import declaration of its tree.  The scenario of
  the claim fails.  Analysing \<^verbatim>\<open>/workspace/a.js\<close> with the content
  \<^verbatim>\<open>import { foo } from "./bar"\<close> yields no representation, hence no import relation:
  \<^verbatim>\<open>extractStructuralFeatures\<close> throws on it, as on every file, and \<^verbatim>\<open>analyzeFile\<close> returns
  \<^verbatim>\<open>null\<close>.  Called on its own, \<^verbatim>\<open>extractRelationships\<close> yields the one relation of the
  claim when the default import of \<^verbatim>\<open>@babel/traverse\<close> is the function, and no relation when
  it is the module object.  And in a program with a call between two imports the
  traversal ends at the call: the second import and the call are not stored.
\<close>

theorem import_scenario_fails:
  "analyzeFile scenario_platform ''/workspace/a.js'' = None
   \<and> analyzeFile (scenario_platform\<lparr>traverse_callable := False\<rparr>) ''/workspace/a.js'' = None
   \<and> extractStructuralFeatures scenario_platform scenario_source ''.js'' = Inl TypeError
   \<and> rel_imports (extractRelationships scenario_platform scenario_source ''/workspace/a.js'' ''.js'')
       = [\<lparr>import_from = ''/workspace/a.js'', import_to = ''/workspace/bar'',
           symbols = [''foo''], importType = named_import,
           import_lineNumber = Some 1, import_statement = scenario_source\<rparr>]
   \<and> rel_imports (extractRelationships (scenario_platform\<lparr>traverse_callable := False\<rparr>)
                    scenario_source ''/workspace/a.js'' ''.js'') = []
   \<and> map import_to
         (rel_imports (extractRelationships (scenario_platform\<lparr>parse := \<lambda>_. Inr call_between_imports\<rparr>)
                         src ''/workspace/c.js'' ''.js'')) = [''/workspace/a'']
   \<and> functionCalls (extractRelationships (scenario_platform\<lparr>parse := \<lambda>_. Inr call_between_imports\<rparr>)
                       src ''/workspace/c.js'' ''.js'') = []
   \<and> resolveImportPath env importPath currentFile
       = (if startsWith importPath ''./'' \<or> startsWith importPath ''../''
          then path_resolve (cwd env) [dirname currentFile, importPath]
          else importPath)
   \<and> visit_node env src path parent (ImportDeclaration importPath specs) l rels
       = Inr (rels\<lparr>rel_imports := rel_imports rels @ [importRelation env src path importPath specs l]\<rparr>)
   \<and> import_from (importRelation env src path importPath specs l) = path
   \<and> import_to (importRelation env src path importPath specs l) = resolveImportPath env importPath path
   \<and> (extension \<in> set jsExtensions \<and> parse env src = Inr body \<longrightarrow>
        (\<forall>r \<in> set (rel_imports (extractRelationships env src path extension)).
           \<exists>(importPath, specs, l) \<in> set (import_nodes (program body)).
             r = importRelation env src path importPath specs l))"
proof -
  have callable: "traverse_callable scenario_platform"
    and p: "parse scenario_platform scenario_source = Inr scenario_body"
    by (simp_all add: scenario_platform_def)
  have one: "rel_imports (extractRelationships scenario_platform scenario_source ''/workspace/a.js'' ''.js'')
       = [\<lparr>import_from = ''/workspace/a.js'', import_to = ''/workspace/bar'',
           symbols = [''foo''], importType = named_import,
           import_lineNumber = Some 1, import_statement = scenario_source\<rparr>]"
    by (rule scenario_imports [OF callable p])
  have none: "rel_imports (extractRelationships (scenario_platform\<lparr>traverse_callable := False\<rparr>)
                    scenario_source ''/workspace/a.js'' ''.js'') = []"
    using uncallable_imports [of "scenario_platform\<lparr>traverse_callable := False\<rparr>"
            scenario_source "''/workspace/a.js''" "''.js''"]
    by (simp add: scenario_js)
  have between: "map import_to
         (rel_imports (extractRelationships (scenario_platform\<lparr>parse := \<lambda>_. Inr call_between_imports\<rparr>)
                         src ''/workspace/c.js'' ''.js'')) = [''/workspace/a'']
     \<and> functionCalls (extractRelationships (scenario_platform\<lparr>parse := \<lambda>_. Inr call_between_imports\<rparr>)
                       src ''/workspace/c.js'' ''.js'') = []"
    by (rule call_between_result) (simp_all add: callable)
  have sound: "\<exists>(importPath, specs, l) \<in> set (import_nodes (program body)).
             r = importRelation env src path importPath specs l"
    if "extension \<in> set jsExtensions" "parse env src = Inr body"
       "r \<in> set (rel_imports (extractRelationships env src path extension))" for r
    using that extractJavaScriptRelationships_sound [where env = env and src = src and body = body
            and r = r and path = path
            and rels = "\<lparr>rel_filePath = path, rel_imports = [], rel_exports = [],
                         functionCalls = [], classInheritance = [], dependencies = [],
                         compositions = [], lastAnalyzed = now env\<rparr>"]
    by (simp add: extractRelationships_def Let_def)
  show ?thesis
    using one none between sound
    by (simp add: analyzeFile_null extractStructuralFeatures_raises resolveImportPath_def
          importRelation_fields)
qed

theorem import_scenario_fails_witness:
  "''.js'' \<in> set jsExtensions
   \<and> parse scenario_platform scenario_source = Inr scenario_body
   \<and> \<lparr>import_from = ''/workspace/a.js'', import_to = ''/workspace/bar'',
       symbols = [''foo''], importType = named_import,
       import_lineNumber = Some 1, import_statement = scenario_source\<rparr>
       \<in> set (rel_imports (extractRelationships scenario_platform scenario_source ''/workspace/a.js'' ''.js''))
   \<and> (\<exists>(importPath, specs, l) \<in> set (import_nodes (program scenario_body)).
         \<lparr>import_from = ''/workspace/a.js'', import_to = ''/workspace/bar'',
          symbols = [''foo''], importType = named_import,
          import_lineNumber = Some 1, import_statement = scenario_source\<rparr>
         = importRelation scenario_platform scenario_source ''/workspace/a.js'' importPath specs l)
   \<and> analyzeFile scenario_platform ''/workspace/a.js'' = None"
proof -
  have p: "parse scenario_platform scenario_source = Inr scenario_body"
    by (simp add: scenario_platform_def)
  show ?thesis
    using import_scenario_fails [where env = scenario_platform and src = scenario_source
            and path = "''/workspace/a.js''" and extension = "''.js''" and body = scenario_body] p
    by (simp add: scenario_js)
qed

subsection \<open>Feature extraction on files that take the heuristic path\<close>

lemma heuristic_assignment_raises:
  "extension \<notin> set jsExtensions \<Longrightarrow> extractStructuralFeatures env src extension = Inl TypeError"
  by (simp add: extractStructuralFeatures_def assign_to_const_def Let_def)

lemma parse_failure_raises:
  "parse env src = Inl e \<Longrightarrow> extractStructuralFeatures env src extension = Inl TypeError"
  by (simp add: extractStructuralFeatures_def assign_to_const_def Let_def)

lemma ext_py: "extname ''/workspace/m.py'' = ''.py''"
  by code_simp

lemma ext_broken: "extname ''/workspace/broken.js'' = ''.js''"
  by code_simp

lemma py_not_js: "''.py'' \<notin> set jsExtensions"
  by code_simp

text \<open>
  Claim C6 asks that feature extraction never raise and that analysis never produce a null
  representation for malformed source.  The code falls short of it: the heuristic
  fall-back assigns to the constant \<^verbatim>\<open>features\<close>, so on the Python file \<^verbatim>\<open>m.py\<close> the
  \<^verbatim>\<open>else\<close> branch and then the \<^verbatim>\<open>catch\<close> block of \<^verbatim>\<open>extractStructuralFeatures\<close> both throw,
  and \<^verbatim>\<open>analyzeFile\<close> returns \<^verbatim>\<open>null\<close>; on \<^verbatim>\<open>broken.js\<close> the parser throws, the
  \<^verbatim>\<open>catch\<close> block throws in turn, and \<^verbatim>\<open>analyzeFile\<close> returns \<^verbatim>\<open>null\<close> as well.
\<close>

theorem heuristic_fallback_fails:
  "extractStructuralFeatures scenario_platform ''x = 1'' ''.py'' = Inl TypeError
   \<and> analyzeFile scenario_platform ''/workspace/m.py'' = None
   \<and> parse scenario_platform ''function ('' = Inl SyntaxError
   \<and> extractStructuralFeatures scenario_platform ''function ('' ''.js'' = Inl TypeError
   \<and> analyzeFile scenario_platform ''/workspace/broken.js'' = None"
proof -
  have p: "parse scenario_platform ''function ('' = Inl SyntaxError"
    by (simp add: scenario_platform_def scenario_source_def)
  have r1: "readFile scenario_platform ''/workspace/m.py'' = Some ''x = 1''"
    and r2: "readFile scenario_platform ''/workspace/broken.js'' = Some ''function (''"
    by (simp_all add: scenario_platform_def)
  show ?thesis
    using p
    by (simp add: analyzeFile_def r1 r2 ext_py ext_broken Let_def
          heuristic_assignment_raises [OF py_not_js] parse_failure_raises [OF p])
qed

subsection \<open>Path validation\<close>

lemma traversal_path_valid: "validateFilePath workspace_config ''/workspace/../etc/passwd''"
  by code_simp

lemma traversal_path_resolves:
  "path_resolve ''/workspace'' [''/workspace/../etc/passwd''] = ''/etc/passwd''"
  by code_simp

lemma sibling_path_valid: "validateFilePath workspace_config ''/workspace-old/secret.js''"
  by code_simp

lemma relative_path_valid: "validateFilePath workspace_config ''../etc/passwd''"
  by code_simp

text \<open>
  Claim C7 asks that \<^verbatim>\<open>updateFile\<close> reject every path that does not resolve under the
  repository root, without changing any state.  The code falls short of it: under the
  root \<^verbatim>\<open>/workspace\<close> the path \<^verbatim>\<open>/workspace/../etc/passwd\<close>, which resolves to
  \<^verbatim>\<open>/etc/passwd\<close>, passes \<^verbatim>\<open>validateFilePath\<close>, and \<^verbatim>\<open>updateFile\<close> with the change
  \<^verbatim>\<open>deleted\<close> reports success, removes the path from the cache and sends a delete request
  to the graph client.  The sibling directory \<^verbatim>\<open>/workspace-old\<close> and the relative path
  \<^verbatim>\<open>../etc/passwd\<close> pass the validation too.
\<close>

theorem updateFile_accepts_traversal:
  "validateFilePath workspace_config ''/workspace/../etc/passwd''
   \<and> path_resolve ''/workspace'' [''/workspace/../etc/passwd''] = ''/etc/passwd''
   \<and> updateFile scenario_platform fresh_processor ''/workspace/../etc/passwd'' deleted
       = (\<lparr>success = True,
           message = ''File /workspace/../etc/passwd removed from cache and knowledge graph''\<rparr>,
          fresh_processor\<lparr>cache := (cache fresh_processor)(''/workspace/../etc/passwd'' := None),
                           graph := [DeleteFileRelationships ''/workspace/../etc/passwd'']\<rparr>)
   \<and> graph (snd (updateFile scenario_platform fresh_processor ''/workspace/../etc/passwd'' deleted))
       \<noteq> graph fresh_processor
   \<and> validateFilePath workspace_config ''/workspace-old/secret.js''
   \<and> validateFilePath workspace_config ''../etc/passwd''"
proof -
  have cfg: "config fresh_processor = workspace_config" and g: "graph fresh_processor = []"
    by (simp_all add: fresh_processor_def)
  have u: "updateFile scenario_platform fresh_processor ''/workspace/../etc/passwd'' deleted
       = (\<lparr>success = True,
           message = ''File /workspace/../etc/passwd removed from cache and knowledge graph''\<rparr>,
          fresh_processor\<lparr>cache := (cache fresh_processor)(''/workspace/../etc/passwd'' := None),
                           graph := [DeleteFileRelationships ''/workspace/../etc/passwd'']\<rparr>)"
    by (simp add: updateFile_def cfg g traversal_path_valid deleteFileRelationships_def)
  show ?thesis
    unfolding u
    using traversal_path_valid traversal_path_resolves sibling_path_valid relative_path_valid
    by (simp add: g)
qed

lemma absolute_not_dot_relative: "startsWith s ''/'' \<Longrightarrow> \<not> startsWith s ''./''"
  by (cases s) (simp_all add: startsWith_def)

text \<open>
  What the validation does reject: a path that, with its backslashes turned into slashes,
  starts with a slash and does not start with the repository path.  Such an update fails
  with the message that the path is outside the repository, and the processor is left as
  it was; \<^verbatim>\<open>/etc/passwd\<close> under the root \<^verbatim>\<open>/workspace\<close> is such a path.
\<close>

lemma updateFile_rejects_foreign_absolute:
  assumes "startsWith (slashes path) ''/''"
    and "\<not> startsWith (slashes path) (slashes (repositoryPath (config st)))"
  shows "updateFile env st path change
     = (\<lparr>success = False, message = ''File path '' @ path @ '' is outside repository''\<rparr>, st)"
proof -
  have "\<not> validateFilePath (config st) path"
    using assms absolute_not_dot_relative [OF assms(1)]
    by (simp add: validateFilePath_def Let_def)
  then show ?thesis
    by (simp add: updateFile_def)
qed

lemma updateFile_rejects_etc_passwd:
  "updateFile env (st\<lparr>config := workspace_config\<rparr>) ''/etc/passwd'' modified
     = (\<lparr>success = False, message = ''File path /etc/passwd is outside repository''\<rparr>,
        st\<lparr>config := workspace_config\<rparr>)"
proof -
  have a: "startsWith (slashes ''/etc/passwd'') ''/''" by code_simp
  have b: "\<not> startsWith (slashes ''/etc/passwd'') (slashes (repositoryPath workspace_config))"
    by code_simp
  show ?thesis
    using updateFile_rejects_foreign_absolute [of "''/etc/passwd''" "st\<lparr>config := workspace_config\<rparr>" env modified] a b
    by simp
qed

subsection \<open>Relationship traversal\<close>

lemma mock_components_cases:
  "rc \<in> set (createMockRelatedComponents path cfg) \<Longrightarrow>
     distance rc = 1 \<and> distance rc \<le> maxDepth cfg \<and> minRelevanceScore cfg \<le> relevanceScore rc
     \<and> (relationshipType rc, relevanceScore rc, rc_filePath rc, componentName rc)
         \<in> derived_components path"
  by (auto simp add: createMockRelatedComponents_def derived_components_def Let_def
        dest!: in_set_takeD split: if_splits)

lemma mock_components_length: "length (createMockRelatedComponents path cfg) \<le> 3"
proof -
  have "length (filter P (a @ b @ [c])) \<le> 3" if "length a \<le> 1" "length b \<le> 1"
    for P and a b :: "RelatedComponent list" and c
    using that length_filter_le [of P "a @ b @ [c]"] by simp
  then show ?thesis
    by (simp add: createMockRelatedComponents_def Let_def)
qed

text \<open>
  Claim C8, as amended.  Every component that relationship traversal returns is synthetic.
  It is derived from the name of the start file: its path and its name are those of the
  start file with \<^verbatim>\<open>Service\<close> replaced by \<^verbatim>\<open>Controller\<close> (type \<^verbatim>\<open>calls\<close>, score 0.9), with
  \<^verbatim>\<open>Controller\<close> replaced by \<^verbatim>\<open>Service\<close> (type \<^verbatim>\<open>imports\<close>, score 0.95), or with \<^verbatim>\<open>.test\<close>
  put before the extension (type \<^verbatim>\<open>depends_on\<close>, score 0.7).  It is at distance 1, it is
  returned only when its score is at least the minimum relevance 0.3 and the depth limit is
  at least 1, there are at most three components, and the result does not depend on the
  edges stored in the graph.  No component at distance 2 or more is ever returned.  The
  same holds for \<^verbatim>\<open>getRelatedComponents\<close> under any traversal configuration.
\<close>

theorem traversal_components_synthetic:
  "(\<forall>rc \<in> set (relatedComponents (traverseRelationships g startFile types depth)).
       distance rc = 1 \<and> distance rc \<le> depth \<and> 0.3 \<le> relevanceScore rc
       \<and> (relationshipType rc, relevanceScore rc, rc_filePath rc, componentName rc)
           \<in> derived_components startFile
       \<and> (relationshipType rc, relevanceScore rc)
           \<in> {(calls_t, 0.9), (imports_t, 0.95), (depends_on_t, 0.7)})
   \<and> length (relatedComponents (traverseRelationships g startFile types depth)) \<le> 3
   \<and> traverseRelationships g' startFile types depth = traverseRelationships g startFile types depth
   \<and> (\<forall>rc \<in> set (getRelatedComponents g startFile partial).
         distance rc = 1
         \<and> (relationshipType rc, relevanceScore rc, rc_filePath rc, componentName rc)
             \<in> derived_components startFile
         \<and> (relationshipType rc, relevanceScore rc)
             \<in> {(calls_t, 0.9), (imports_t, 0.95), (depends_on_t, 0.7)})
   \<and> getRelatedComponents g' startFile partial = getRelatedComponents g startFile partial
   \<and> derived_components startFile
       = {(calls_t, 0.9, replace_first startFile ''Service'' ''Controller'',
           replace_first (pop_or (split_char CHR ''/'' startFile) []) ''Service'' ''Controller''),
          (imports_t, 0.95, replace_first startFile ''Controller'' ''Service'',
           replace_first (pop_or (split_char CHR ''/'' startFile) []) ''Controller'' ''Service''),
          (depends_on_t, 0.7, replace_ext_test startFile,
           replace_ext_test (pop_or (split_char CHR ''/'' startFile) []))}"
proof -
  have kinds: "(relationshipType rc, relevanceScore rc)
           \<in> {(calls_t, 0.9), (imports_t, 0.95), (depends_on_t, 0.7)}"
    if "(relationshipType rc, relevanceScore rc, rc_filePath rc, componentName rc)
           \<in> derived_components startFile" for rc
    using that by (auto simp add: derived_components_def)
  have direct: "\<forall>rc \<in> set (getRelatedComponents g startFile partial).
         distance rc = 1
         \<and> (relationshipType rc, relevanceScore rc, rc_filePath rc, componentName rc)
             \<in> derived_components startFile
         \<and> (relationshipType rc, relevanceScore rc)
             \<in> {(calls_t, 0.9), (imports_t, 0.95), (depends_on_t, 0.7)}"
  proof
    fix rc
    assume "rc \<in> set (getRelatedComponents g startFile partial)"
    then have m: "rc \<in> set (createMockRelatedComponents startFile (spreadConfig defaultConfig partial))"
      by (simp add: getRelatedComponents_def)
    show "distance rc = 1
         \<and> (relationshipType rc, relevanceScore rc, rc_filePath rc, componentName rc)
             \<in> derived_components startFile
         \<and> (relationshipType rc, relevanceScore rc)
             \<in> {(calls_t, 0.9), (imports_t, 0.95), (depends_on_t, 0.7)}"
      using mock_components_cases [OF m] kinds [of rc] by blast
  qed
  have direct_same: "getRelatedComponents g' startFile partial = getRelatedComponents g startFile partial"
    by (simp add: getRelatedComponents_def)
  define cfg where "cfg = spreadConfig defaultConfig
      (noConfig\<lparr>p_maxDepth := Some depth, p_relationshipTypes := Some types\<rparr>)"
  have comps: "relatedComponents (traverseRelationships g startFile types depth)
      = createMockRelatedComponents startFile cfg"
    by (simp add: traverseRelationships_def getRelatedComponents_def Let_def cfg_def)
  have cfg: "maxDepth cfg = depth" "minRelevanceScore cfg = 0.3"
    by (simp_all add: cfg_def spreadConfig_def noConfig_def defaultConfig_def)
  have same: "traverseRelationships g' startFile types depth = traverseRelationships g startFile types depth"
    by (simp add: traverseRelationships_def getRelatedComponents_def)
  have each: "distance rc = 1 \<and> distance rc \<le> depth \<and> 0.3 \<le> relevanceScore rc
       \<and> (relationshipType rc, relevanceScore rc, rc_filePath rc, componentName rc)
           \<in> derived_components startFile
       \<and> (relationshipType rc, relevanceScore rc)
           \<in> {(calls_t, 0.9), (imports_t, 0.95), (depends_on_t, 0.7)}"
    if "rc \<in> set (createMockRelatedComponents startFile cfg)" for rc
    using mock_components_cases [OF that] kinds [of rc] cfg by metis
  show ?thesis
  proof (intro conjI)
    show "\<forall>rc \<in> set (relatedComponents (traverseRelationships g startFile types depth)).
       distance rc = 1 \<and> distance rc \<le> depth \<and> 0.3 \<le> relevanceScore rc
       \<and> (relationshipType rc, relevanceScore rc, rc_filePath rc, componentName rc)
           \<in> derived_components startFile
       \<and> (relationshipType rc, relevanceScore rc)
           \<in> {(calls_t, 0.9), (imports_t, 0.95), (depends_on_t, 0.7)}"
      unfolding comps using each by blast
    show "length (relatedComponents (traverseRelationships g startFile types depth)) \<le> 3"
      unfolding comps by (rule mock_components_length)
    show "traverseRelationships g' startFile types depth = traverseRelationships g startFile types depth"
      by (rule same)
    show "\<forall>rc \<in> set (getRelatedComponents g startFile partial).
         distance rc = 1
         \<and> (relationshipType rc, relevanceScore rc, rc_filePath rc, componentName rc)
             \<in> derived_components startFile
         \<and> (relationshipType rc, relevanceScore rc)
             \<in> {(calls_t, 0.9), (imports_t, 0.95), (depends_on_t, 0.7)}"
      by (rule direct)
    show "getRelatedComponents g' startFile partial = getRelatedComponents g startFile partial"
      by (rule direct_same)
    show "derived_components startFile
       = {(calls_t, 0.9, replace_first startFile ''Service'' ''Controller'',
           replace_first (pop_or (split_char CHR ''/'' startFile) []) ''Service'' ''Controller''),
          (imports_t, 0.95, replace_first startFile ''Controller'' ''Service'',
           replace_first (pop_or (split_char CHR ''/'' startFile) []) ''Controller'' ''Service''),
          (depends_on_t, 0.7, replace_ext_test startFile,
           replace_ext_test (pop_or (split_char CHR ''/'' startFile) []))}"
      by (simp add: derived_components_def)
  qed
qed

lemma chain_components:
  "relatedComponents (traverseRelationships g ''/repo/A.ts'' [imports_t] 2) = [test_file_component]"
proof -
  have a: "createMockRelatedComponents ''/repo/A.ts''
             \<lparr>maxDepth = 2, relationshipTypes = [imports_t], minRelevanceScore = 0.3,
              includeReverse = True, weightings = DEFAULT_RELATIONSHIP_WEIGHTS\<rparr>
           = [test_file_component]"
    by code_simp
  show ?thesis
    by (simp add: traverseRelationships_def getRelatedComponents_def Let_def spreadConfig_def
          noConfig_def defaultConfig_def a)
qed

text \<open>
  Claim C8 as stated fails.  With the chain \<open>A \<rightarrow> B \<rightarrow> C \<rightarrow> D\<close> of unit-weight import edges
  stored, the traversal from \<open>A\<close> over \<^verbatim>\<open>imports\<close> with depth limit 2 returns neither \<open>B\<close>
  nor \<open>C\<close>: it returns one component, the test file of \<open>A\<close>, of type \<^verbatim>\<open>depends_on\<close> at
  distance 1 with score 0.7, which is not the weight 0.6 of \<^verbatim>\<open>depends_on\<close> times
  \<open>1 / 1\<close>.
\<close>

theorem traversal_chain_counterexample:
  "relatedComponents (traverseRelationships chain_graph ''/repo/A.ts'' [imports_t] 2)
   = [\<lparr>rc_filePath = ''/repo/A.test.ts'', componentName = ''A.test.ts'', componentType = file_c,
       relationshipType = depends_on_t,
       relationshipDescription = ''Test file for this component'',
       relevanceScore = 0.7, distance = 1, snippet = None\<rparr>]
   \<and> weightOf DEFAULT_RELATIONSHIP_WEIGHTS depends_on_t = Some 0.6
   \<and> weightOf DEFAULT_RELATIONSHIP_WEIGHTS imports_t = Some 1"
  by (simp add: chain_components test_file_component_def DEFAULT_RELATIONSHIP_WEIGHTS_def)

theorem traversal_components_synthetic_witness:
  "test_file_component
     \<in> set (relatedComponents (traverseRelationships chain_graph ''/repo/A.ts'' [imports_t] 2))
   \<and> distance test_file_component = 1
   \<and> distance test_file_component \<le> 2
   \<and> 0.3 \<le> relevanceScore test_file_component
   \<and> (relationshipType test_file_component, relevanceScore test_file_component) = (depends_on_t, 0.7)
   \<and> (relationshipType test_file_component, relevanceScore test_file_component,
       rc_filePath test_file_component, componentName test_file_component)
       \<in> derived_components ''/repo/A.ts''
   \<and> length (relatedComponents (traverseRelationships chain_graph ''/repo/A.ts'' [imports_t] 2)) \<le> 3
   \<and> traverseRelationships [] ''/repo/A.ts'' [imports_t] 2
       = traverseRelationships chain_graph ''/repo/A.ts'' [imports_t] 2"
proof -
  have m: "test_file_component
     \<in> set (relatedComponents (traverseRelationships chain_graph ''/repo/A.ts'' [imports_t] 2))"
    by (simp add: chain_components)
  have ty: "relationshipType test_file_component = depends_on_t"
    by (simp add: test_file_component_def)
  show ?thesis
    using traversal_components_synthetic [of chain_graph "''/repo/A.ts''" "[imports_t]" 2 "[]" noConfig]
      m ty
    by auto
qed

subsection \<open>Determinism\<close>
















subsection \<open>Search\<close>

lemma example_paths:
  "map (\<lambda>i. ''src/example'' @ decimal (i + 1) @ ''.py'') [0..<5]
   = [''src/example1.py'', ''src/example2.py'', ''src/example3.py'', ''src/example4.py'',
      ''src/example5.py'']"
  by code_simp

lemma below_iff: "real i < m \<longleftrightarrow> i < nat \<lceil>m\<rceil>"
proof -
  have "real i < m \<longleftrightarrow> int i < \<lceil>m\<rceil>"
    by (simp add: less_ceiling_iff)
  then show ?thesis
    by auto
qed

lemma loop_rounds: "takeWhile (\<lambda>i. real i < min limit 5) [0..<5] = [0..<nat \<lceil>min limit 5\<rceil>]"
proof -
  define k where "k = nat \<lceil>min limit 5\<rceil>"
  have "k \<le> 5"
    by (simp add: k_def ceiling_le_iff min_def)
  then consider "k = 0" | "k = 1" | "k = 2" | "k = 3" | "k = 4" | "k = 5"
    by linarith
  then have "takeWhile (\<lambda>i. i < k) [0..<5] = [0..<k]"
    by cases (simp_all add: upt_conv_Cons)
  then show ?thesis
    unfolding below_iff k_def .
qed

lemma searchCode_length: "length (searchCode env g query limit) = nat \<lceil>min limit 5\<rceil>"
  by (simp only: searchCode_def createMockSearchResults_def loop_rounds length_map length_upt
        diff_zero)

lemma take_min_length: "length xs = n \<Longrightarrow> take (min a n) xs = take a xs"
  by (simp add: min_def)

lemma searchCode_at_most_five: "length (searchCode env g query limit) \<le> 5"
  by (simp add: searchCode_length ceiling_le_iff min_def)

lemma searchCode_paths:
  "map filePath (searchCode env g query limit)
   = take (nat \<lceil>limit\<rceil>) [''src/example1.py'', ''src/example2.py'', ''src/example3.py'',
                           ''src/example4.py'', ''src/example5.py'']"
proof -
  let ?k = "nat \<lceil>min limit 5\<rceil>"
  have k: "?k = min (nat \<lceil>limit\<rceil>) 5"
    by (simp add: min_def ceiling_le_iff le_ceiling_iff)
  have "map filePath (searchCode env g query limit)
        = map (\<lambda>i. ''src/example'' @ decimal (i + 1) @ ''.py'') [0..<?k]"
    by (simp only: searchCode_def createMockSearchResults_def loop_rounds)
       (simp add: createMockSearchResult_def comp_def)
  also have "\<dots> = take ?k (map (\<lambda>i. ''src/example'' @ decimal (i + 1) @ ''.py'') [0..<5])"
    by (simp add: take_map take_upt ceiling_le_iff min_def del: upt_Suc)
  also have "\<dots> = take (nat \<lceil>limit\<rceil>) (map (\<lambda>i. ''src/example'' @ decimal (i + 1) @ ''.py'') [0..<5])"
    unfolding k by (rule take_min_length) simp
  finally show ?thesis
    by (simp only: example_paths)
qed

lemma slice0_length: "length (slice0 xs k) \<le> length xs"
  by (simp add: slice0_def Let_def)

lemma rerank_length: "length (rerank rs query k) \<le> length rs"
  using slice0_length [of "sort_key (\<lambda>r. - biasAdjustedScore r) (map (\<lambda>result. scoreResult result query) rs)" k]
  by (simp add: rerank_def Let_def)

lemma rerankWithContext_length: "length (rerankWithContext g rs query k) \<le> length rs"
proof -
  have "length (slice0 (sort_key f (map h rs)) k) \<le> length rs"
    for f :: "EnhancedRetrievalResult \<Rightarrow> real" and h
    using slice0_length [of "sort_key f (map h rs)" k] by simp
  then show ?thesis
    by (simp add: rerankWithContext_def Let_def)
qed

text \<open>
  Claim C10, as amended.  For every query and every limit, \<^verbatim>\<open>searchCode\<close> returns
  \<open>\<lceil>min(limit, 5)\<rceil>\<close> representations when the limit is positive and none otherwise; for a
  limit that is a whole number \<open>n \<ge> 0\<close> that is \<open>min(n, 5)\<close>.  Their paths are the first of
  \<^verbatim>\<open>src/example1.py\<close>, ..., \<^verbatim>\<open>src/example5.py\<close>, and the result does not depend on what
  the graph client has been asked to store or delete.  Hence \<^verbatim>\<open>queryCode\<close> and
  \<^verbatim>\<open>queryCodeWithContext\<close> return at most five results, whatever \<^verbatim>\<open>maxResults\<close> is.
\<close>

theorem searchCode_synthetic:
  "length (searchCode env g query limit) = nat \<lceil>min limit 5\<rceil>
   \<and> length (searchCode env g query (real n)) = min n 5
   \<and> map filePath (searchCode env g query limit)
       = take (nat \<lceil>limit\<rceil>) [''src/example1.py'', ''src/example2.py'', ''src/example3.py'',
                               ''src/example4.py'', ''src/example5.py'']
   \<and> searchCode env g' query limit = searchCode env g query limit
   \<and> length (queryCode env st query requested) \<le> 5
   \<and> length (queryCodeWithContext env st query requested) \<le> 5"
proof -
  have q1: "length (queryCode env st query requested) \<le> 5"
    using rerank_length [of "searchCode env (graph st) query (queryLimit st requested * 2)" query
            "queryLimit st requested"]
          searchCode_at_most_five [of env "graph st" query "queryLimit st requested * 2"]
    by (simp add: queryCode_def Let_def)
  have q2: "length (queryCodeWithContext env st query requested) \<le> 5"
    using rerankWithContext_length [of "graph st"
            "searchCode env (graph st) query (queryLimit st requested * 2)" query
            "queryLimit st requested"]
          searchCode_at_most_five [of env "graph st" query "queryLimit st requested * 2"]
    by (simp add: queryCodeWithContext_def Let_def)
  have whole: "length (searchCode env g query (real n)) = min n 5"
    by (simp add: searchCode_length min_def)
  have same: "searchCode env g' query limit = searchCode env g query limit"
    by (simp add: searchCode_def)
  show ?thesis
    using searchCode_length searchCode_paths q1 q2 same whole by blast
qed

text \<open>
  Claim C10 as stated fails in its count.  For the limit 2.5 the search returns three
  representations, and for the limit \<open>-1\<close> it returns none; neither number is
  \<open>min(limit, 5)\<close>, which is 2.5 and \<open>-1\<close>.  A request for 1.25 results makes \<^verbatim>\<open>queryCode\<close>
  search with the limit 2.5.
\<close>

theorem searchCode_count_counterexample:
  "length (searchCode scenario_platform [] ''q'' 2.5) = 3
   \<and> real (length (searchCode scenario_platform [] ''q'' 2.5)) \<noteq> min 2.5 5
   \<and> length (searchCode scenario_platform [] ''q'' (- 1)) = 0
   \<and> real (length (searchCode scenario_platform [] ''q'' (- 1))) \<noteq> min (- 1) 5
   \<and> queryLimit fresh_processor (Some 1.25) * 2 = 2.5"
proof -
  have a: "nat \<lceil>min (2.5 :: real) 5\<rceil> = 3"
    by (simp add: min_def)
  have b: "nat \<lceil>min (- 1 :: real) 5\<rceil> = 0"
    by (simp add: min_def)
  show ?thesis
    by (simp add: searchCode_length a b queryLimit_def)
qed

end
